theory Spec2Isabelle
  imports Main
begin

text \<open>
  A model of the rendering pipeline and the mock dispatch of the Power Pages local server:
  \<open>LiquidEngine\<close> (include preprocessing, the content classifier, \<open>render\<close>),
  \<open>SnippetHandler\<close>, \<open>TemplateHandler\<close>, \<open>PageHandler.getPageContent\<close> and
  \<open>processPage\<close>, and the mock rules of \<open>MockManager\<close> and \<open>MockMiddleware\<close>.  The file
  system, the \<open>liquidjs\<close> engine, \<open>yaml.parse\<close> and \<open>RegExp\<close> objects built at run time are
  parameters; the regular expressions written in the source are modelled and run.
\<close>

section \<open>JavaScript strings\<close>

text \<open>
  A JavaScript string is modelled as a \<^typ>\<open>string\<close> whose characters are the code units
  below 256 (ASCII and Latin-1).  On these code units \<open>\s\<close> of a regular expression and
  \<open>String.prototype.trim\<close> recognise the same seven characters (tab, line feed, vertical
  tab, form feed, carriage return, space and the no-break space), and
  \<open>String.prototype.toLowerCase\<close> changes the letters \<open>A\<close>..\<open>Z\<close> and the Latin-1 capitals
  \<open>0xC0\<close>..\<open>0xDE\<close> (the multiplication sign \<open>0xD7\<close> is no letter) to the character 32
  places further.
\<close>

definition isSpace :: "char \<Rightarrow> bool" where
  "isSpace c =
     (c \<in> set [CHR 0x09, CHR 0x0A, CHR 0x0B, CHR 0x0C, CHR 0x0D, CHR 0x20, CHR 0xA0])"

definition upperChars :: "char list" where
  "upperChars =
     ''ABCDEFGHIJKLMNOPQRSTUVWXYZ'' @
     [CHR 0xC0, CHR 0xC1, CHR 0xC2, CHR 0xC3, CHR 0xC4, CHR 0xC5, CHR 0xC6, CHR 0xC7,
      CHR 0xC8, CHR 0xC9, CHR 0xCA, CHR 0xCB, CHR 0xCC, CHR 0xCD, CHR 0xCE, CHR 0xCF,
      CHR 0xD0, CHR 0xD1, CHR 0xD2, CHR 0xD3, CHR 0xD4, CHR 0xD5, CHR 0xD6,
      CHR 0xD8, CHR 0xD9, CHR 0xDA, CHR 0xDB, CHR 0xDC, CHR 0xDD, CHR 0xDE]"

definition lowerChars :: "char list" where
  "lowerChars =
     ''abcdefghijklmnopqrstuvwxyz'' @
     [CHR 0xE0, CHR 0xE1, CHR 0xE2, CHR 0xE3, CHR 0xE4, CHR 0xE5, CHR 0xE6, CHR 0xE7,
      CHR 0xE8, CHR 0xE9, CHR 0xEA, CHR 0xEB, CHR 0xEC, CHR 0xED, CHR 0xEE, CHR 0xEF,
      CHR 0xF0, CHR 0xF1, CHR 0xF2, CHR 0xF3, CHR 0xF4, CHR 0xF5, CHR 0xF6,
      CHR 0xF8, CHR 0xF9, CHR 0xFA, CHR 0xFB, CHR 0xFC, CHR 0xFD, CHR 0xFE]"

definition toLowerChar :: "char \<Rightarrow> char" where
  "toLowerChar c =
     (case map_of (zip upperChars lowerChars) c of None \<Rightarrow> c | Some l \<Rightarrow> l)"

definition toLowerCase :: "string \<Rightarrow> string" where
  "toLowerCase s = map toLowerChar s"

text \<open>
  \<open>s.replace(/\s+/g, '-')\<close>: every maximal run of white space becomes one hyphen.  The flag
  says whether the previous character belonged to a run that has already been replaced.
\<close>

fun replaceSpaceRuns :: "bool \<Rightarrow> string \<Rightarrow> string" where
  "replaceSpaceRuns inRun [] = []"
| "replaceSpaceRuns inRun (c # cs) =
     (if isSpace c
      then (if inRun then replaceSpaceRuns True cs else CHR ''-'' # replaceSpaceRuns True cs)
      else c # replaceSpaceRuns False cs)"

text \<open>
  The slug of a logical name, as computed in \<open>LiquidEngine.loadSnippetContent\<close>,
  \<open>LiquidEngine.processInclude\<close> and \<open>SnippetHandler.getSnippet\<close>:
  \<open>name.toLowerCase().replace(/\s+/g, '-')\<close>.
\<close>

definition normalizeName :: "string \<Rightarrow> string" where
  "normalizeName name = replaceSpaceRuns False (toLowerCase name)"


text \<open>
  \<open>s.trim()\<close>, \<open>s.startsWith(p)\<close>, \<open>s.endsWith(p)\<close>, \<open>s.includes(p)\<close> and
  \<open>s.split(',')\<close>.
\<close>

definition trim :: "string \<Rightarrow> string" where
  "trim s = rev (dropWhile isSpace (rev (dropWhile isSpace s)))"

fun startsWith :: "string \<Rightarrow> string \<Rightarrow> bool" where
  "startsWith s [] = True"
| "startsWith [] (p # ps) = False"
| "startsWith (c # cs) (p # ps) = (c = p \<and> startsWith cs ps)"

definition endsWith :: "string \<Rightarrow> string \<Rightarrow> bool" where
  "endsWith s p = startsWith (rev s) (rev p)"

text \<open>
  \<open>indexOf s p\<close> splits \<open>s\<close> at the first occurrence of \<open>p\<close> into the text before it and
  the text after it; \<open>None\<close> is JavaScript's \<open>-1\<close>.
\<close>

fun indexOf :: "string \<Rightarrow> string \<Rightarrow> (string \<times> string) option" where
  "indexOf [] p = (if p = [] then Some ([], []) else None)"
| "indexOf (c # cs) p =
     (if startsWith (c # cs) p then Some ([], drop (length p) (c # cs))
      else map_option (\<lambda>(front, back). (c # front, back)) (indexOf cs p))"

definition includesStr :: "string \<Rightarrow> string \<Rightarrow> bool" where
  "includesStr s p = (indexOf s p \<noteq> None)"

fun splitComma :: "string \<Rightarrow> string list" where
  "splitComma [] = [[]]"
| "splitComma (c # cs) =
     (if c = CHR '','' then [] # splitComma cs
      else (case splitComma cs of [] \<Rightarrow> [[c]] | w # ws \<Rightarrow> (c # w) # ws))"

text \<open>
  \<open>s.replace(pattern, replacement)\<close> with a string pattern and a string replacement replaces
  the first occurrence only, and the replacement string is not taken literally: ECMAScript's
  \<open>GetSubstitution\<close> expands \<open>$$\<close> to a dollar sign, \<open>$&\<close> to the matched text, \<open>$`\<close> to the
  text before the match and \<open>$'\<close> to the text after it.  A string pattern has no capture
  groups, so \<open>$1\<close>..\<open>$99\<close> and \<open>$<\<close> stay as they are.
\<close>

fun getSubstitution :: "string \<Rightarrow> string \<Rightarrow> string \<Rightarrow> string \<Rightarrow> string" where
  "getSubstitution matched front back [] = []"
| "getSubstitution matched front back [c] = [c]"
| "getSubstitution matched front back (c # d # r) =
     (if c = CHR ''$'' \<and> d = CHR ''$'' then CHR ''$'' # getSubstitution matched front back r
      else if c = CHR ''$'' \<and> d = CHR ''&'' then matched @ getSubstitution matched front back r
      else if c = CHR ''$'' \<and> d = CHR 0x60 then front @ getSubstitution matched front back r
      else if c = CHR ''$'' \<and> d = CHR 0x27 then back @ getSubstitution matched front back r
      else c # getSubstitution matched front back (d # r))"

definition replaceFirst :: "string \<Rightarrow> string \<Rightarrow> string \<Rightarrow> string" where
  "replaceFirst s pattern replacement =
     (case indexOf s pattern of
        None \<Rightarrow> s
      | Some (front, back) \<Rightarrow>
          front @ getSubstitution pattern front back replacement @ back)"

section \<open>Regular expressions\<close>

text \<open>
  The regular expressions of the source are sequences of literal characters and character
  classes, each taken once or under \<open>*\<close>, \<open>+\<close> or the lazy \<open>*?\<close>, with the assertions \<open>^\<close>,
  \<open>$\<close> and \<open>\b\<close>; alternation occurs only at the top level.  A regular expression is
  therefore a list of alternatives, each a list of items, and \<open>Mark\<close> stands for a parenthesis
  of a capture group.  The matcher backtracks in the order ECMAScript prescribes: a greedy
  quantifier tries the longest repetition first, a lazy one the shortest, alternatives are tried
  from left to right, and the leftmost starting position wins.
\<close>

datatype cclass =
    Lit char                \<comment> \<open>one literal character\<close>
  | LitI char               \<comment> \<open>a literal letter under the flag \<open>i\<close>\<close>
  | Space                   \<comment> \<open>\<open>\s\<close>\<close>
  | Word                    \<comment> \<open>\<open>\w\<close>\<close>
  | Alpha                   \<comment> \<open>\<open>[a-zA-Z]\<close>\<close>
  | AnyChar                 \<comment> \<open>\<open>[\s\S]\<close>\<close>
  | Dot                     \<comment> \<open>\<open>.\<close>: any character but a line terminator\<close>
  | OneOf "char list"       \<comment> \<open>\<open>[...]\<close>\<close>
  | NoneOf "char list"      \<comment> \<open>\<open>[^...]\<close>\<close>

datatype item =
    One cclass | Star cclass | Plus cclass | LazyStar cclass
  | Bol | Eol | WordBoundary | Mark

type_synonym regex = "item list list"

definition isWordChar :: "char \<Rightarrow> bool" where
  "isWordChar c =
     (c \<in> set ''abcdefghijklmnopqrstuvwxyzABCDEFGHIJKLMNOPQRSTUVWXYZ0123456789_'')"

definition isAlpha :: "char \<Rightarrow> bool" where
  "isAlpha c = (c \<in> set ''abcdefghijklmnopqrstuvwxyzABCDEFGHIJKLMNOPQRSTUVWXYZ'')"

fun inClass :: "cclass \<Rightarrow> char \<Rightarrow> bool" where
  "inClass (Lit a) c = (c = a)"
| "inClass (LitI a) c = (isAlpha c \<and> toLowerChar c = toLowerChar a \<or> c = a)"
| "inClass Space c = isSpace c"
| "inClass Word c = isWordChar c"
| "inClass Alpha c = isAlpha c"
| "inClass AnyChar c = True"
| "inClass Dot c = (c \<noteq> CHR 0x0A \<and> c \<noteq> CHR 0x0D)"
| "inClass (OneOf cs) c = (c \<in> set cs)"
| "inClass (NoneOf cs) c = (c \<notin> set cs)"

text \<open>
  \<open>matchHere items prev s\<close> matches \<open>items\<close> at the front of \<open>s\<close>, where \<open>prev\<close> is the
  character before \<open>s\<close> in the whole input (\<open>None\<close> at its start).  It returns the input left
  at each \<open>Mark\<close>, in order, and the input left after the match.
\<close>

fun matchHere :: "item list \<Rightarrow> char option \<Rightarrow> string \<Rightarrow> (string list \<times> string) option" where
  "matchHere [] prev s = Some ([], s)"
| "matchHere (One k # r) prev [] = None"
| "matchHere (One k # r) prev (c # cs) =
     (if inClass k c then matchHere r (Some c) cs else None)"
| "matchHere (Star k # r) prev [] = matchHere r prev []"
| "matchHere (Star k # r) prev (c # cs) =
     (if inClass k c
      then (case matchHere (Star k # r) (Some c) cs of
              Some m \<Rightarrow> Some m
            | None \<Rightarrow> matchHere r prev (c # cs))
      else matchHere r prev (c # cs))"
| "matchHere (Plus k # r) prev [] = None"
| "matchHere (Plus k # r) prev (c # cs) =
     (if inClass k c then matchHere (Star k # r) (Some c) cs else None)"
| "matchHere (LazyStar k # r) prev [] = matchHere r prev []"
| "matchHere (LazyStar k # r) prev (c # cs) =
     (case matchHere r prev (c # cs) of
        Some m \<Rightarrow> Some m
      | None \<Rightarrow> (if inClass k c then matchHere (LazyStar k # r) (Some c) cs else None))"
| "matchHere (Bol # r) prev s = (if prev = None then matchHere r prev s else None)"
| "matchHere (Eol # r) prev s = (if s = [] then matchHere r prev s else None)"
| "matchHere (WordBoundary # r) prev s =
     (if (case prev of None \<Rightarrow> False | Some p \<Rightarrow> isWordChar p)
         \<noteq> (case s of [] \<Rightarrow> False | c # cs \<Rightarrow> isWordChar c)
      then matchHere r prev s else None)"
| "matchHere (Mark # r) prev s =
     map_option (\<lambda>(marks, rest). (s # marks, rest)) (matchHere r prev s)"

fun matchAlternatives :: "regex \<Rightarrow> char option \<Rightarrow> string \<Rightarrow> (string list \<times> string) option" where
  "matchAlternatives [] prev s = None"
| "matchAlternatives (a # as) prev s =
     (case matchHere a prev s of Some m \<Rightarrow> Some m | None \<Rightarrow> matchAlternatives as prev s)"

text \<open>\<open>regex.test(s)\<close>: is there a match at some position of \<open>s\<close>?\<close>

fun testFrom :: "regex \<Rightarrow> char option \<Rightarrow> string \<Rightarrow> bool" where
  "testFrom re prev [] = (matchAlternatives re prev [] \<noteq> None)"
| "testFrom re prev (c # cs) =
     (matchAlternatives re prev (c # cs) \<noteq> None \<or> testFrom re (Some c) cs)"

definition test :: "regex \<Rightarrow> string \<Rightarrow> bool" where
  "test re s = testFrom re None s"

text \<open>
  A match of a global regular expression: the matched text (\<open>match[0]\<close>) and the text of the
  first capture group (\<open>match[1]\<close>, empty when the expression has no group).
\<close>

definition mkMatch :: "string \<Rightarrow> string list \<times> string \<Rightarrow> string \<times> string" where
  "mkMatch s m =
     (take (length s - length (snd m)) s,
      (case fst m of
         a # b # _ \<Rightarrow> take (length a - length b) a
       | _ \<Rightarrow> []))"

text \<open>
  \<open>[...s.matchAll(re)]\<close> and \<open>s.match(re)\<close> for a global \<open>re\<close>: all matches from left to
  right, each search starting where the previous match ended (one character further after an
  empty match).  \<open>skip\<close> counts the characters still covered by the previous match.
\<close>

fun matchAllFrom :: "regex \<Rightarrow> char option \<Rightarrow> nat \<Rightarrow> string \<Rightarrow> (string \<times> string) list" where
  "matchAllFrom re prev skip [] =
     (if skip = 0
      then (case matchAlternatives re prev [] of None \<Rightarrow> [] | Some m \<Rightarrow> [mkMatch [] m])
      else [])"
| "matchAllFrom re prev skip (c # cs) =
     (if skip > 0 then matchAllFrom re (Some c) (skip - 1) cs
      else (case matchAlternatives re prev (c # cs) of
              None \<Rightarrow> matchAllFrom re (Some c) 0 cs
            | Some m \<Rightarrow>
                mkMatch (c # cs) m
                  # matchAllFrom re (Some c) (length (c # cs) - length (snd m) - 1) cs))"

definition matchAll :: "regex \<Rightarrow> string \<Rightarrow> (string \<times> string) list" where
  "matchAll re s = matchAllFrom re None 0 s"

definition lits :: "string \<Rightarrow> item list" where
  "lits s = map (\<lambda>c. One (Lit c)) s"

definition litsI :: "string \<Rightarrow> item list" where
  "litsI s = map (\<lambda>c. One (LitI c)) s"


section \<open>Errors and the file system\<close>

text \<open>
  An \<open>async\<close> function either resolves to a value or rejects with an error: its result is
  \<open>error + 'a\<close>, and \<open>try { ... } catch (error) { ... }\<close> is \<open>tryCatch\<close>.
\<close>

datatype error = FsError | YamlError | EngineError | MockDataError

definition tryCatch :: "error + 'a \<Rightarrow> (error \<Rightarrow> error + 'a) \<Rightarrow> error + 'a" where
  "tryCatch body handler = (case body of Inl e \<Rightarrow> handler e | Inr v \<Rightarrow> Inr v)"

text \<open>
  What the code sees at a path: nothing (\<open>fs.pathExists\<close> is false, the entry is \<open>None\<close>),
  something that is not a directory (\<open>fs.readdir\<close> rejects), or a directory, whose listing
  gives the file names in the order of \<open>fs.readdir\<close>, each with the content that
  \<open>fs.readFile\<close> returns for it.  The files a directory lists are taken to be readable.
\<close>

datatype fsentry = NotADirectory | Directory "(string \<times> string) list"

definition readdir :: "fsentry \<Rightarrow> error + (string \<times> string) list" where
  "readdir entry = (case entry of NotADirectory \<Rightarrow> Inl FsError | Directory files \<Rightarrow> Inr files)"

definition readFile :: "string \<times> string \<Rightarrow> string" where
  "readFile file = snd file"

text \<open>\<open>files.find(f => f.endsWith(ext))\<close> on a directory listing.\<close>

definition findEndsWith :: "string \<Rightarrow> (string \<times> string) list \<Rightarrow> (string \<times> string) option" where
  "findEndsWith ext files = find (\<lambda>f. endsWith (fst f) ext) files"

text \<open>
  The configuration: \<open>snippetsDir cfg slug\<close> is the entry at
  \<open>path.join(powerPagesPath, snippetsPath, slug)\<close>, \<open>templatesDir cfg slug\<close> the entry at
  \<open>path.join(powerPagesPath, templatesPath, slug)\<close>, \<open>contentPagesDir cfg directory\<close> the
  entry at \<open>path.join(powerPagesPath, pagesPath, directory, 'content-pages')\<close>, and
  \<open>liquidExcludes\<close> the optional list of excluded file names.
\<close>

record config =
  snippetsDir :: "string \<Rightarrow> fsentry option"
  templatesDir :: "string \<Rightarrow> fsentry option"
  contentPagesDir :: "string \<Rightarrow> fsentry option"
  liquidExcludes :: "string list option"

section \<open>LiquidEngine: include preprocessing\<close>

definition quotes :: cclass where
  "quotes = OneOf [CHR 0x27, CHR 0x22]"

definition notQuotes :: cclass where
  "notQuotes = NoneOf [CHR 0x27, CHR 0x22]"

text \<open>\<open>/\{\{\s*Snippets\.([^}]+)\s*\}\}/g\<close>\<close>

definition snippetRe :: regex where
  "snippetRe =
     [lits ''{{'' @ [Star Space] @ lits ''Snippets.'' @ [Mark, Plus (NoneOf ''}''), Mark, Star Space]
        @ lits ''}}'']"

text \<open>\<open>/{%\s*include\s+['"]([^'"]+)['"]\s*%}/g\<close>\<close>

definition includeRe :: regex where
  "includeRe =
     [lits ''{%'' @ [Star Space] @ lits ''include''
        @ [Plus Space, One quotes, Mark, Plus notQuotes, Mark, One quotes, Star Space]
        @ lits ''%}'']"

text \<open>\<open>isJavaScriptFile\<close>: \<open>/\.js$/i\<close>, \<open>/react/i\<close>, \<open>/redux/i\<close>, ...\<close>

definition isJavaScriptFile :: "string \<Rightarrow> bool" where
  "isJavaScriptFile fileName =
     list_ex (\<lambda>pattern. test pattern fileName)
       [[litsI ''.js'' @ [Eol]], [litsI ''react''], [litsI ''redux''], [litsI ''bootstrap''],
        [litsI ''jquery''], [litsI ''babel''], [litsI ''webpack''], [litsI ''polyfill'']]"

text \<open>\<open>containsLiquidSyntax\<close>: \<open>/\{\{.*?\}\}/\<close>, \<open>/\{%.*?%\}/\<close>, \<open>/\{\{-.*?-\}\}/\<close>, \<open>/\{%-.*?-%\}/\<close>\<close>

definition containsLiquidSyntax :: "string \<Rightarrow> bool" where
  "containsLiquidSyntax content =
     list_ex (\<lambda>pattern. test pattern content)
       [[lits ''{{'' @ [LazyStar Dot] @ lits ''}}''],
        [lits ''{%'' @ [LazyStar Dot] @ lits ''%}''],
        [lits ''{{-'' @ [LazyStar Dot] @ lits ''-}}''],
        [lits ''{%-'' @ [LazyStar Dot] @ lits ''-%}'']]"

definition shouldSkipLiquidProcessing :: "config \<Rightarrow> string \<Rightarrow> string \<Rightarrow> bool" where
  "shouldSkipLiquidProcessing cfg fileName content =
     (if (case liquidExcludes cfg of None \<Rightarrow> False | Some excludes \<Rightarrow> fileName \<in> set excludes)
      then True
      else if \<not> isJavaScriptFile fileName then False
      else if content \<noteq> [] \<and> containsLiquidSyntax content then False
      else True)"

text \<open>
  The lookup of \<open>loadSnippetContent\<close>: the snippet directory of the slug, then the first
  \<open>.contentsnippet.value.html\<close> file or else the first \<open>.contentsnippet.html\<close> file.  \<open>Inr None\<close>
  is "not found"; \<open>Inl\<close> is an error thrown inside the \<open>try\<close> block.
\<close>

definition loadSnippetContent_lookup :: "config \<Rightarrow> string \<Rightarrow> error + string option" where
  "loadSnippetContent_lookup cfg snippetName =
     (case snippetsDir cfg (normalizeName snippetName) of
        None \<Rightarrow> Inr None
      | Some entry \<Rightarrow>
          (case readdir entry of
             Inl e \<Rightarrow> Inl e
           | Inr files \<Rightarrow>
               (case (case findEndsWith ''.contentsnippet.value.html'' files of
                        Some f \<Rightarrow> Some f
                      | None \<Rightarrow> findEndsWith ''.contentsnippet.html'' files) of
                  None \<Rightarrow> Inr None
                | Some htmlFile \<Rightarrow> Inr (Some (readFile htmlFile)))))"

text \<open>
  The lookup of \<open>processInclude\<close>: if the snippet path exists, the first \<open>.html\<close> file of
  that directory; else, if the template path exists, the first \<open>.webtemplate.source.html\<close> file
  of that directory.  The result is the variable \<open>content\<close>, which stays empty when no file is
  found.
\<close>

definition processInclude_lookup :: "config \<Rightarrow> string \<Rightarrow> error + string" where
  "processInclude_lookup cfg includeName =
     (case snippetsDir cfg (normalizeName includeName) of
        Some entry \<Rightarrow>
          (case readdir entry of
             Inl e \<Rightarrow> Inl e
           | Inr files \<Rightarrow>
               (case findEndsWith ''.html'' files of
                  Some htmlFile \<Rightarrow> Inr (readFile htmlFile)
                | None \<Rightarrow> Inr []))
      | None \<Rightarrow>
          (case templatesDir cfg (normalizeName includeName) of
             Some entry \<Rightarrow>
               (case readdir entry of
                  Inl e \<Rightarrow> Inl e
                | Inr files \<Rightarrow>
                    (case findEndsWith ''.webtemplate.source.html'' files of
                       Some webtemplateFile \<Rightarrow> Inr (readFile webtemplateFile)
                     | None \<Rightarrow> Inr []))
           | None \<Rightarrow> Inr []))"

definition includeNotFound :: "string \<Rightarrow> string" where
  "includeNotFound includeName = ''<!-- Include not found: '' @ includeName @ '' -->''"

definition includeError :: "string \<Rightarrow> string" where
  "includeError includeName = ''<!-- Include error: '' @ includeName @ '' -->''"

definition snippetNotFound :: "string \<Rightarrow> string" where
  "snippetNotFound snippetName = ''<!-- Snippet not found: '' @ snippetName @ '' -->''"

definition snippetError :: "string \<Rightarrow> string" where
  "snippetError snippetName = ''<!-- Snippet error: '' @ snippetName @ '' -->''"

text \<open>
  \<open>preprocessIncludes\<close>, \<open>loadSnippetContent\<close> and \<open>processInclude\<close> call each other.  The
  two \<open>for ... of\<close> loops are folds over the matches, which are computed before the loop
  starts.  The argument \<open>additionalData\<close> is only handed on and is left out; \<open>depth\<close>
  counts nested calls from 0.  The three functions catch what they throw, so their results
  are plain strings.
\<close>

function preprocessIncludes :: "config \<Rightarrow> string \<Rightarrow> nat \<Rightarrow> string"
  and loadSnippetContent :: "config \<Rightarrow> string \<Rightarrow> nat \<Rightarrow> string"
  and processInclude :: "config \<Rightarrow> string \<Rightarrow> nat \<Rightarrow> string"
where
  "preprocessIncludes cfg templateContent depth =
     (if depth > 10 then templateContent
      else
        let processedContent =
              fold (\<lambda>snippetMatch processedContent.
                      replaceFirst processedContent (fst snippetMatch)
                        (loadSnippetContent cfg (trim (snd snippetMatch)) (depth + 1)))
                   (matchAll snippetRe templateContent) templateContent
        in fold (\<lambda>match processedContent.
                   replaceFirst processedContent (fst match)
                     (processInclude cfg (snd match) (depth + 1)))
                (matchAll includeRe processedContent) processedContent)"
| "loadSnippetContent cfg snippetName depth =
     (case loadSnippetContent_lookup cfg snippetName of
        Inl e \<Rightarrow> snippetError snippetName
      | Inr (Some content) \<Rightarrow> preprocessIncludes cfg content depth
      | Inr None \<Rightarrow> snippetNotFound snippetName)"
| "processInclude cfg includeName depth =
     (case processInclude_lookup cfg includeName of
        Inl e \<Rightarrow> includeError includeName
      | Inr content \<Rightarrow>
          (if content \<noteq> []
           then (if shouldSkipLiquidProcessing cfg includeName content then content
                 else preprocessIncludes cfg content depth)
           else includeNotFound includeName))"
  by pat_completeness auto

text \<open>
  Termination: a nested call is made only while \<open>depth \<le> 10\<close> and with \<open>depth + 1\<close>, so
  \<open>11 - depth\<close> decreases from each \<open>preprocessIncludes\<close> to the next.
\<close>

termination
  by (relation "measure (\<lambda>call. case call of
          Inl (cfg, templateContent, depth) \<Rightarrow> 2 * (11 - depth)
        | Inr (Inl (cfg, snippetName, depth)) \<Rightarrow> 2 * (11 - depth) + 1
        | Inr (Inr (cfg, includeName, depth)) \<Rightarrow> 2 * (11 - depth) + 1)")
     auto

declare preprocessIncludes.simps [simp del]

section \<open>LiquidEngine: the content classifier and render\<close>

text \<open>The array \<open>jsPatterns\<close> of \<open>isJavaScriptContent\<close>, in the order of the source.\<close>

definition jsPatterns :: "regex list" where
  "jsPatterns =
     [[[Bol, Star Space] @ lits ''/*'' @ [LazyStar AnyChar] @ lits ''*/''],
      [[Bol, Star Space] @ lits ''//''],
      [[Bol, Star Space] @ lits ''(function'' @ [Star Space] @ lits ''(''],
      [[Bol, Star Space] @ lits ''function'' @ [Plus Space, Plus Word]],
      [[Bol, Star Space] @ lits ''var'' @ [Plus Space, Plus Word]],
      [[Bol, Star Space] @ lits ''const'' @ [Plus Space, Plus Word]],
      [[Bol, Star Space] @ lits ''let'' @ [Plus Space, Plus Word]],
      [lits ''typeof'' @ [Plus Space] @ lits ''exports''],
      [lits ''typeof'' @ [Plus Space] @ lits ''define''],
      [lits ''global'' @ [Star Space] @ lits ''='' @ [Star Space] @ lits ''typeof'' @ [Star Space]
         @ lits ''globalThis''],
      [lits ''!function'' @ [Star Space] @ lits ''(''],
      [lits ''window'' @ [Star Space] @ lits ''['' @ [Star Space, One quotes] @ lits ''ReactDOM''
         @ [One quotes, Star Space] @ lits '']''],
      [lits ''e'' @ [Star Space] @ lits ''='' @ [Star Space] @ lits ''e'' @ [Star Space] @ lits ''||''
         @ [Star Space] @ lits ''self''],
      [lits ''<script'' @ [Star (NoneOf ''>'')] @ lits ''type='' @ [One quotes] @ lits ''text/babel''
         @ [One quotes, Star (NoneOf ''>'')] @ lits ''>''],
      [lits ''React.createElement''],
      [lits ''ReactDOM.''],
      [lits ''React.__SECRET_INTERNALS_DO_NOT_USE_OR_YOU_WILL_BE_FIRED''],
      [lits ''ReactCurrentDispatcher''],
      [lits ''ReactCurrentBatchConfig''],
      [lits ''prepareStackTrace''],
      [lits ''Error.prepareStackTrace''],
      [lits ''ReactDebugCurrentFrame''],
      [lits ''getStackAddendum''],
      [lits ''\"object\"==typeof exports&&\"undefined\"!=typeof module''],
      [lits ''define.amd?define''],
      [lits ''this,(function(e,t){\"use strict\"'']]"

text \<open>
  The array \<open>jsIndicators\<close>.  Every entry but the first carries the flag \<open>g\<close>, so
  \<open>content.match\<close> returns all its matches; the first returns one match array of length 1.
\<close>

definition jsIndicatorFirst :: regex where
  "jsIndicatorFirst =
     [[WordBoundary] @ lits ''ReactDOM'' @ [Star Space] @ lits ''='' @ [Star Space] @ lits ''{}'']"

definition jsIndicatorsGlobal :: "regex list" where
  "jsIndicatorsGlobal =
     [[lits ''typeof'' @ [Plus Space, Plus Word]],
      [lits ''function'' @ [Star Space] @ lits ''(''],
      [[WordBoundary] @ lits ''var'' @ [Plus Space, Plus Word]],
      [[WordBoundary] @ lits ''const'' @ [Plus Space, Plus Word]],
      [[WordBoundary] @ lits ''let'' @ [Plus Space, Plus Word]],
      [lits ''console.'' @ [Plus Alpha, Star Space] @ lits ''(''],
      [[WordBoundary, Plus Word, Star Space] @ lits ''='' @ [Star Space] @ lits ''function''
         @ [Star Space] @ lits ''(''],
      [[WordBoundary] @ lits ''if'' @ [Star Space] @ lits ''('' @ [Plus (NoneOf '')'')] @ lits '')''
         @ [Star Space] @ lits ''{''],
      [[WordBoundary] @ lits ''for'' @ [Star Space] @ lits ''('' @ [Plus (NoneOf '')'')] @ lits '')''
         @ [Star Space] @ lits ''{''],
      [[WordBoundary] @ lits ''try'' @ [Star Space] @ lits ''{''],
      [[WordBoundary] @ lits ''catch'' @ [Star Space] @ lits ''(''],
      [lits ''==='', lits ''!=='', lits ''&&'', lits ''||''],
      [[WordBoundary, Plus Word] @ lits ''.prototype.''],
      [[WordBoundary] @ lits ''new'' @ [Plus Space, Plus Word, Star Space] @ lits ''(''],
      [[WordBoundary] @ lits ''this.''],
      [[WordBoundary] @ lits ''return'' @ [Plus Space, Plus (NoneOf '';'')] @ lits '';''],
      [[WordBoundary] @ lits ''case'' @ [Plus Space, Plus (NoneOf '':'')] @ lits '':''],
      [lits ''ReactCurrentBatchConfig''],
      [lits ''ReactCurrentDispatcher''],
      [lits ''ReactDebugCurrentFrame''],
      [lits ''ReactDOM.''],
      [lits ''React.''],
      [lits ''__SECRET_INTERNALS_DO_NOT_USE_OR_YOU_WILL_BE_FIRED''],
      [lits ''prepareStackTrace''],
      [lits ''getStackAddendum''],
      [lits ''\"object\"==typeof''],
      [lits ''\"function\"==typeof''],
      [lits ''\"undefined\"!=typeof'']]"

definition indicatorCount :: "string \<Rightarrow> nat" where
  "indicatorCount content =
     (if test jsIndicatorFirst content then 1 else 0)
       + sum_list (map (\<lambda>pattern. length (matchAll pattern content)) jsIndicatorsGlobal)"

text \<open>
  \<open>isJavaScriptContent\<close>.  The source computes
  \<open>jsRatio = indicatorCount / (contentLength / 1000)\<close> in floating point and compares it with
  2 and with 1; for lengths a string can have, the two roundings cannot move the quotient
  across the bound, so the comparisons are those of the exact quotient, written here without
  division (an empty content has no indicator, and \<open>NaN\<close> compares false there as \<open>0 > 0\<close> does).
\<close>

definition isJavaScriptContent :: "config \<Rightarrow> string \<Rightarrow> bool" where
  "isJavaScriptContent cfg content =
     (let contentLength = length content;
          hasReactDOMSignature =
            test [lits ''ReactDOM'', lits ''React.__SECRET_INTERNALS'',
                  lits ''ReactCurrentDispatcher'', lits ''ReactDebugCurrentFrame''] content;
          hasUMDPattern = test [lits ''\"object\"==typeof exports&&\"undefined\"!=typeof module''] content;
          hasMinifiedJSPattern =
            (test [lits ''!function(e,t){\"use strict\"''] content
             \<or> test [lits ''this,(function(e,t)''] content);
          isVeryLargeWithJSPatterns =
            (contentLength > 100000
             \<and> length (matchAll [lits ''function'' @ [Star Space] @ lits ''(''] content) > 100);
          containsExcludedSignatures =
            (case liquidExcludes cfg of
               None \<Rightarrow> False
             | Some excludes \<Rightarrow>
                 list_ex (\<lambda>excludedFile.
                     includesStr content excludedFile
                     \<or> includesStr content ''react-dom.development.js''
                     \<or> includesStr content ''react.development.js''
                     \<or> includesStr content ''__SECRET_INTERNALS_DO_NOT_USE_OR_YOU_WILL_BE_FIRED'')
                   excludes)
      in list_ex (\<lambda>pattern. test pattern content) jsPatterns
         \<or> hasReactDOMSignature
         \<or> hasUMDPattern
         \<or> hasMinifiedJSPattern
         \<or> isVeryLargeWithJSPatterns
         \<or> containsExcludedSignatures
         \<or> indicatorCount content > 20
         \<or> (1000 * indicatorCount content > 2 * contentLength \<and> contentLength > 1000)
         \<or> (contentLength > 50000 \<and> 1000 * indicatorCount content > contentLength))"

text \<open>
  \<open>render\<close>.  The state is the field \<open>this.mockData\<close>; \<open>createMockData\<close> is the outcome of
  building the mock data on first use, and \<open>parseAndRender\<close> is the expression engine of the
  \<open>liquidjs\<close> package, which receives the processed content, the mock data and the caller's
  data.  The \<open>catch\<close> block logs and throws the error again.
\<close>

definition render ::
  "config \<Rightarrow> (error + 'd) \<Rightarrow> (string \<Rightarrow> 'd \<Rightarrow> 'a \<Rightarrow> error + string) \<Rightarrow> 'd option
     \<Rightarrow> string \<Rightarrow> 'a \<Rightarrow> (error + string) \<times> 'd option" where
  "render cfg createMockData parseAndRender mockData templateContent additionalData =
     (if isJavaScriptContent cfg templateContent then (Inr templateContent, mockData)
      else
        (case (case mockData of Some d \<Rightarrow> Inr d | None \<Rightarrow> createMockData) of
           Inl e \<Rightarrow> (Inl e, mockData)
         | Inr d \<Rightarrow>
             (let processedContent = preprocessIncludes cfg templateContent 0
              in if isJavaScriptContent cfg processedContent then (Inr processedContent, Some d)
                 else (parseAndRender processedContent d additionalData, Some d))))"

section \<open>SnippetHandler and TemplateHandler\<close>

text \<open>
  Both handlers keep a cache from names to loaded items and hold a reference to the engine.
  The engine's \<open>render\<close> is a parameter \<open>rend\<close> that takes and returns the engine's state;
  \<open>yamlParse\<close> is \<open>yaml.parse\<close> of the \<open>yaml\<close> package.  Of a loaded item the model keeps
  the name and the content.
\<close>

record snippet =
  snippet_name :: string
  snippet_content :: string

text \<open>
  \<open>/\.[a-zA-Z]{2}-[a-zA-Z]{2}\.contentsnippet\.value\.html$/\<close> and its two siblings: a
  language-qualified file name with the given ending.
\<close>

definition languageQualified :: "string \<Rightarrow> regex" where
  "languageQualified ending =
     [lits ''.'' @ [One Alpha, One Alpha] @ lits ''-'' @ [One Alpha, One Alpha] @ lits ending @ [Eol]]"

definition findMatching :: "regex \<Rightarrow> (string \<times> string) list \<Rightarrow> (string \<times> string) option" where
  "findMatching re files = find (\<lambda>f. test re (fst f)) files"

definition orElse :: "'a option \<Rightarrow> 'a option \<Rightarrow> 'a option" where
  "orElse a b = (case a of Some x \<Rightarrow> Some x | None \<Rightarrow> b)"

text \<open>The \<open>try\<close> block of \<open>getSnippet\<close> after the cache lookup.\<close>

definition getSnippet_load ::
  "config \<Rightarrow> (string \<Rightarrow> error + 'y) \<Rightarrow> string \<Rightarrow> error + snippet option" where
  "getSnippet_load cfg yamlParse snippetName =
     (case snippetsDir cfg (normalizeName snippetName) of
        None \<Rightarrow> Inr None
      | Some entry \<Rightarrow>
          (case readdir entry of
             Inl e \<Rightarrow> Inl e
           | Inr files \<Rightarrow>
               (let htmlFile =
                      orElse (findMatching (languageQualified ''.contentsnippet.value.html'') files)
                        (orElse (findEndsWith ''.contentsnippet.value.html'' files)
                           (orElse (findMatching (languageQualified ''.contentsnippet.html'') files)
                              (findEndsWith ''.contentsnippet.html'' files)));
                    configFile =
                      orElse (findMatching (languageQualified ''.contentsnippet.yml'') files)
                        (findEndsWith ''.contentsnippet.yml'' files)
                in case htmlFile of
                     None \<Rightarrow> Inr None
                   | Some html \<Rightarrow>
                       (case (case configFile of
                                None \<Rightarrow> Inr ()
                              | Some yml \<Rightarrow> map_sum id (\<lambda>_. ()) (yamlParse (readFile yml))) of
                          Inl e \<Rightarrow> Inl e
                        | Inr _ \<Rightarrow>
                            Inr (Some \<lparr>snippet_name = snippetName,
                                       snippet_content = readFile html\<rparr>)))))"

text \<open>
  \<open>getSnippet\<close>: a cached snippet is returned as it is; a loaded one is cached; every error
  is caught and gives \<open>null\<close>.
\<close>

definition getSnippet ::
  "config \<Rightarrow> (string \<Rightarrow> error + 'y) \<Rightarrow> (string \<rightharpoonup> snippet) \<Rightarrow> string
     \<Rightarrow> snippet option \<times> (string \<rightharpoonup> snippet)" where
  "getSnippet cfg yamlParse snippetsCache snippetName =
     (case snippetsCache snippetName of
        Some cached \<Rightarrow> (Some cached, snippetsCache)
      | None \<Rightarrow>
          (case getSnippet_load cfg yamlParse snippetName of
             Inl e \<Rightarrow> (None, snippetsCache)
           | Inr None \<Rightarrow> (None, snippetsCache)
           | Inr (Some loaded) \<Rightarrow> (Some loaded, snippetsCache(snippetName \<mapsto> loaded))))"

definition snippetRenderError :: "string \<Rightarrow> string" where
  "snippetRenderError snippetName = ''<!-- Snippet render error: '' @ snippetName @ '' -->''"

text \<open>
  \<open>renderSnippet\<close>.  The result is the outcome of the \<open>async\<close> function (\<open>Inl\<close> would be a
  rejection), the cache and the engine's state.
\<close>

definition renderSnippet ::
  "config \<Rightarrow> (string \<Rightarrow> error + 'y) \<Rightarrow> ('s \<Rightarrow> string \<Rightarrow> 'a \<Rightarrow> (error + string) \<times> 's)
     \<Rightarrow> (string \<rightharpoonup> snippet) \<times> 's \<Rightarrow> string \<Rightarrow> 'a
     \<Rightarrow> (error + string) \<times> (string \<rightharpoonup> snippet) \<times> 's" where
  "renderSnippet cfg yamlParse rend state snippetName data =
     (case getSnippet cfg yamlParse (fst state) snippetName of
        (None, cache) \<Rightarrow> (Inr (snippetNotFound snippetName), cache, snd state)
      | (Some snip, cache) \<Rightarrow>
          (case rend (snd state) (snippet_content snip) data of
             (Inl e, engine) \<Rightarrow> (Inr (snippetRenderError snippetName), cache, engine)
           | (Inr rendered, engine) \<Rightarrow> (Inr rendered, cache, engine)))"

text \<open>
  \<open>processSnippetReferences\<close>: \<open>{% editable snippets "Name" %}\<close> tags, then
  \<open>{{ snippets["Name"] }}\<close> references; both loops take their matches from the original
  \<open>content\<close>.
\<close>

definition editableRe :: regex where
  "editableRe =
     [lits ''{%'' @ [Star Space] @ lits ''editable'' @ [Plus Space] @ lits ''snippets''
        @ [Plus Space, One quotes, Mark, Plus notQuotes, Mark, One quotes, Star Space,
           Star (NoneOf ''%'')]
        @ lits ''%}'']"

definition snippetRefRe :: regex where
  "snippetRefRe =
     [lits ''{{'' @ [Star Space] @ lits ''snippets['' @ [One quotes, Mark, Plus notQuotes, Mark, One quotes]
        @ lits '']'' @ [Star Space] @ lits ''}}'']"

fun renderSnippetLoop ::
  "config \<Rightarrow> (string \<Rightarrow> error + 'y) \<Rightarrow> ('s \<Rightarrow> string \<Rightarrow> 'a \<Rightarrow> (error + string) \<times> 's)
     \<Rightarrow> 'a \<Rightarrow> (string \<times> string) list \<Rightarrow> string \<times> (string \<rightharpoonup> snippet) \<times> 's
     \<Rightarrow> (error + string) \<times> (string \<rightharpoonup> snippet) \<times> 's" where
  "renderSnippetLoop cfg yamlParse rend data [] (processedContent, state) =
     (Inr processedContent, state)"
| "renderSnippetLoop cfg yamlParse rend data (m # ms) (processedContent, state) =
     (case renderSnippet cfg yamlParse rend state (snd m) data of
        (Inl e, state') \<Rightarrow> (Inl e, state')
      | (Inr renderedSnippet, state') \<Rightarrow>
          renderSnippetLoop cfg yamlParse rend data ms
            (replaceFirst processedContent (fst m) renderedSnippet, state'))"

definition processSnippetReferences ::
  "config \<Rightarrow> (string \<Rightarrow> error + 'y) \<Rightarrow> ('s \<Rightarrow> string \<Rightarrow> 'a \<Rightarrow> (error + string) \<times> 's)
     \<Rightarrow> (string \<rightharpoonup> snippet) \<times> 's \<Rightarrow> string \<Rightarrow> 'a
     \<Rightarrow> (error + string) \<times> (string \<rightharpoonup> snippet) \<times> 's" where
  "processSnippetReferences cfg yamlParse rend state content data =
     (case renderSnippetLoop cfg yamlParse rend data (matchAll editableRe content) (content, state) of
        (Inl e, state') \<Rightarrow> (Inr content, state')
      | (Inr processedContent, state') \<Rightarrow>
          (case renderSnippetLoop cfg yamlParse rend data (matchAll snippetRefRe content)
                  (processedContent, state') of
             (Inl e, state'') \<Rightarrow> (Inr content, state'')
           | (Inr processedContent', state'') \<Rightarrow> (Inr processedContent', state'')))"

record template =
  template_name :: string
  template_content :: string

text \<open>\<open>getTemplate\<close>: the directory is named by \<open>templateName.toLowerCase()\<close>.\<close>

definition getTemplate_load ::
  "config \<Rightarrow> (string \<Rightarrow> error + 'y) \<Rightarrow> string \<Rightarrow> error + template option" where
  "getTemplate_load cfg yamlParse templateName =
     (case templatesDir cfg (toLowerCase templateName) of
        None \<Rightarrow> Inr None
      | Some entry \<Rightarrow>
          (case readdir entry of
             Inl e \<Rightarrow> Inl e
           | Inr files \<Rightarrow>
               (case findEndsWith ''.webtemplate.source.html'' files of
                  None \<Rightarrow> Inr None
                | Some sourceFile \<Rightarrow>
                    (case (case findEndsWith ''.webtemplate.yml'' files of
                             None \<Rightarrow> Inr ()
                           | Some yml \<Rightarrow> map_sum id (\<lambda>_. ()) (yamlParse (readFile yml))) of
                       Inl e \<Rightarrow> Inl e
                     | Inr _ \<Rightarrow>
                         Inr (Some \<lparr>template_name = templateName,
                                    template_content = readFile sourceFile\<rparr>)))))"

definition getTemplate ::
  "config \<Rightarrow> (string \<Rightarrow> error + 'y) \<Rightarrow> (string \<rightharpoonup> template) \<Rightarrow> string
     \<Rightarrow> template option \<times> (string \<rightharpoonup> template)" where
  "getTemplate cfg yamlParse templatesCache templateName =
     (case templatesCache templateName of
        Some cached \<Rightarrow> (Some cached, templatesCache)
      | None \<Rightarrow>
          (case getTemplate_load cfg yamlParse templateName of
             Inl e \<Rightarrow> (None, templatesCache)
           | Inr None \<Rightarrow> (None, templatesCache)
           | Inr (Some loaded) \<Rightarrow> (Some loaded, templatesCache(templateName \<mapsto> loaded))))"

definition templateNotFound :: "string \<Rightarrow> string" where
  "templateNotFound templateName = ''<!-- Template not found: '' @ templateName @ '' -->''"

definition templateRenderError :: "string \<Rightarrow> string" where
  "templateRenderError templateName = ''<!-- Template render error: '' @ templateName @ '' -->''"

definition renderTemplate ::
  "config \<Rightarrow> (string \<Rightarrow> error + 'y) \<Rightarrow> ('s \<Rightarrow> string \<Rightarrow> 'a \<Rightarrow> (error + string) \<times> 's)
     \<Rightarrow> (string \<rightharpoonup> template) \<times> 's \<Rightarrow> string \<Rightarrow> 'a
     \<Rightarrow> (error + string) \<times> (string \<rightharpoonup> template) \<times> 's" where
  "renderTemplate cfg yamlParse rend state templateName data =
     (case getTemplate cfg yamlParse (fst state) templateName of
        (None, cache) \<Rightarrow> (Inr (templateNotFound templateName), cache, snd state)
      | (Some tmpl, cache) \<Rightarrow>
          (case rend (snd state) (template_content tmpl) data of
             (Inl e, engine) \<Rightarrow> (Inr (templateRenderError templateName), cache, engine)
           | (Inr rendered, engine) \<Rightarrow> (Inr rendered, cache, engine)))"

section \<open>PageHandler\<close>

record pageContent =
  page_content :: string
  customCss :: string
  customJs :: string
  hasLanguageFile :: bool

text \<open>
  The CSS and JavaScript files of a page: the first \<open>.webpage.custom_css.css\<close> and the first
  \<open>.webpage.custom_javascript.js\<close> file, each read when present and empty otherwise.
\<close>

definition readOptional :: "(string \<times> string) option \<Rightarrow> string" where
  "readOptional file = (case file of None \<Rightarrow> [] | Some f \<Rightarrow> readFile f)"

definition loadPage :: "(string \<times> string) list \<Rightarrow> string \<times> string \<Rightarrow> bool \<Rightarrow> pageContent" where
  "loadPage contentFiles file languageFile =
     \<lparr>page_content = readFile file,
      customCss = readOptional (findEndsWith ''.webpage.custom_css.css'' contentFiles),
      customJs = readOptional (findEndsWith ''.webpage.custom_javascript.js'' contentFiles),
      hasLanguageFile = languageFile\<rparr>"

text \<open>
  The \<open>try\<close> block of \<open>getPageContent\<close>; \<open>directory\<close> is \<open>pageConfig.directory\<close>.  The
  language code is \<open>language.replace('-', '-')\<close>.
\<close>

definition getPageContent_try :: "config \<Rightarrow> string \<Rightarrow> string \<Rightarrow> error + pageContent option" where
  "getPageContent_try cfg directory language =
     (case contentPagesDir cfg directory of
        None \<Rightarrow> Inr None
      | Some entry \<Rightarrow>
          (case readdir entry of
             Inl e \<Rightarrow> Inl e
           | Inr contentFiles \<Rightarrow>
               (let langCode = replaceFirst language ''-'' ''-''
                in case find (\<lambda>f. includesStr (fst f) langCode
                                   \<and> endsWith (fst f) ''.webpage.copy.html'') contentFiles of
                     None \<Rightarrow>
                       (case findEndsWith ''.webpage.copy.html'' contentFiles of
                          None \<Rightarrow> Inr None
                        | Some fallbackFile \<Rightarrow> Inr (Some (loadPage contentFiles fallbackFile False)))
                   | Some contentFile \<Rightarrow> Inr (Some (loadPage contentFiles contentFile True)))))"

text \<open>\<open>getPageContent\<close>: the \<open>catch\<close> block logs the error and returns \<open>null\<close>.\<close>

definition getPageContent :: "config \<Rightarrow> string \<Rightarrow> string \<Rightarrow> error + pageContent option" where
  "getPageContent cfg directory language =
     tryCatch (getPageContent_try cfg directory language) (\<lambda>error. Inr None)"

text \<open>
  \<open>processPage\<close> renders the page's HTML and, when they are not empty, its CSS and its
  JavaScript, then evaluates the page skeleton, a template literal, from left to right.  The
  part of the skeleton before the tracking snippet takes the processed CSS and reads fields
  of the configuration (\<open>this.config.mockUser.userData.id\<close>), so it may throw: it is the
  parameter \<open>skeletonHead\<close>.  Then \<open>renderTrackingCode\<close> runs, which is
  \<open>renderSnippet('Tracking Code')\<close> inside its own \<open>try\<close>.  The rest of the skeleton only
  inserts the processed HTML and JavaScript: it is the parameter \<open>skeletonTail\<close>.
  \<open>errorPage\<close> is \<open>getErrorPage\<close>.  The Liquid context, which the source builds first from
  the page configuration, is the parameter \<open>liquidContext\<close>: the page configuration is taken
  to be an object, so that building the context does not throw.
\<close>

definition renderIfPresent ::
  "('s \<Rightarrow> string \<Rightarrow> 'a \<Rightarrow> (error + string) \<times> 's) \<Rightarrow> 's \<Rightarrow> string \<Rightarrow> 'a \<Rightarrow> (error + string) \<times> 's" where
  "renderIfPresent rend engine text liquidContext =
     (if text \<noteq> [] then rend engine text liquidContext else (Inr [], engine))"

definition renderTrackingCode ::
  "config \<Rightarrow> (string \<Rightarrow> error + 'y) \<Rightarrow> ('s \<Rightarrow> string \<Rightarrow> 'a \<Rightarrow> (error + string) \<times> 's)
     \<Rightarrow> (string \<rightharpoonup> snippet) \<times> 's \<Rightarrow> 'a \<Rightarrow> (error + string) \<times> (string \<rightharpoonup> snippet) \<times> 's" where
  "renderTrackingCode cfg yamlParse rend state emptyData =
     (case renderSnippet cfg yamlParse rend state ''Tracking Code'' emptyData of
        (Inl e, state') \<Rightarrow> (Inr ''<!-- Tracking code snippet not found -->'', state')
      | (Inr trackingSnippet, state') \<Rightarrow> (Inr trackingSnippet, state'))"

definition processPage ::
  "config \<Rightarrow> (string \<Rightarrow> error + 'y) \<Rightarrow> ('s \<Rightarrow> string \<Rightarrow> 'a \<Rightarrow> (error + string) \<times> 's)
     \<Rightarrow> (string \<Rightarrow> error + string) \<Rightarrow> (string \<Rightarrow> string \<Rightarrow> string) \<Rightarrow> (error \<Rightarrow> string)
     \<Rightarrow> (string \<rightharpoonup> snippet) \<times> 's \<Rightarrow> pageContent \<Rightarrow> 'a \<Rightarrow> 'a
     \<Rightarrow> (error + string) \<times> (string \<rightharpoonup> snippet) \<times> 's" where
  "processPage cfg yamlParse rend skeletonHead skeletonTail errorPage state page liquidContext
     emptyData =
     (case rend (snd state) (page_content page) liquidContext of
        (Inl e, engine1) \<Rightarrow> (Inr (errorPage e), fst state, engine1)
      | (Inr processedHtmlContent, engine1) \<Rightarrow>
          (case renderIfPresent rend engine1 (customCss page) liquidContext of
             (Inl e, engine2) \<Rightarrow> (Inr (errorPage e), fst state, engine2)
           | (Inr processedCss, engine2) \<Rightarrow>
               (case renderIfPresent rend engine2 (customJs page) liquidContext of
                  (Inl e, engine3) \<Rightarrow> (Inr (errorPage e), fst state, engine3)
                | (Inr processedJs, engine3) \<Rightarrow>
                    (case skeletonHead processedCss of
                       Inl e \<Rightarrow> (Inr (errorPage e), fst state, engine3)
                     | Inr headHtml \<Rightarrow>
                         (case renderTrackingCode cfg yamlParse rend (fst state, engine3)
                                 emptyData of
                            (Inl e, state') \<Rightarrow> (Inr (errorPage e), state')
                          | (Inr tracking, state') \<Rightarrow>
                              (Inr (headHtml @ tracking
                                      @ skeletonTail processedHtmlContent processedJs),
                               state'))))))"

section \<open>Mock rules\<close>

text \<open>
  A mock rule as stored in \<open>mock-config.json\<close>.  \<open>createdAt\<close> is the time the ISO date string
  denotes, in milliseconds (\<open>new Date(a.createdAt)\<close> under subtraction); \<open>queryParams\<close> is
  \<open>None\<close> when the rule has none, else the entries of the object in the order of
  \<open>Object.entries\<close>, all values strings.
\<close>

record mock =
  mock_id :: string
  enabled :: bool
  priority :: int
  createdAt :: int
  request_method :: string
  request_endpoint :: string
  request_queryParams :: "(string \<times> string) list option"

text \<open>The comparator of \<open>saveMock\<close> (and of \<open>importMocks\<close>).\<close>

definition compareMocks :: "mock \<Rightarrow> mock \<Rightarrow> int" where
  "compareMocks a b =
     (if priority b \<noteq> priority a then priority b - priority a
      else createdAt b - createdAt a)"

text \<open>
  \<open>Array.prototype.sort\<close> is stable; with a comparator that is a total preorder its result is
  the one a stable insertion sort gives.
\<close>

fun insertMock :: "mock \<Rightarrow> mock list \<Rightarrow> mock list" where
  "insertMock x [] = [x]"
| "insertMock x (y # ys) =
     (if compareMocks x y \<le> 0 then x # y # ys else y # insertMock x ys)"

definition sortMocks :: "mock list \<Rightarrow> mock list" where
  "sortMocks mocks = foldr insertMock mocks []"

text \<open>\<open>saveMock\<close>: push the new rule, sort, write the list back.\<close>

definition saveMock :: "mock list \<Rightarrow> mock \<Rightarrow> mock list" where
  "saveMock mocks m = sortMocks (mocks @ [m])"

text \<open>
  \<open>editMock\<close> with the field \<open>priority\<close>: the chosen rule gets the new priority and the list is
  written back as it stands.
\<close>

definition editMockPriority :: "mock list \<Rightarrow> nat \<Rightarrow> int \<Rightarrow> mock list" where
  "editMockPriority mocks mockIndex newPriority =
     (if mockIndex < length mocks
      then mocks[mockIndex := (mocks ! mockIndex)\<lparr>priority := newPriority\<rparr>]
      else mocks)"

text \<open>\<open>loadMocks\<close> of the middleware keeps the enabled rules, in the order of the file.\<close>

definition loadMocks :: "mock list \<Rightarrow> mock list" where
  "loadMocks mocks = filter enabled mocks"

text \<open>
  A request: the method, the path and the parsed query string (values are strings; a key
  that is absent gives \<open>undefined\<close>, here \<open>None\<close>).
\<close>

record request =
  req_method :: string
  req_path :: string
  req_query :: "string \<rightharpoonup> string"

definition hasKeyField :: "string list \<Rightarrow> bool" where
  "hasKeyField fieldList =
     list_ex (\<lambda>field. field \<in> set fieldList) [''incidentid'', ''ticketnumber'', ''statuscode'']"

text \<open>
  The loop body of \<open>matchesQueryParams\<close> for one entry: \<open>!reqValue\<close> holds for a missing key
  and for an empty value.
\<close>

definition matchesQueryParam :: "(string \<rightharpoonup> string) \<Rightarrow> string \<times> string \<Rightarrow> bool" where
  "matchesQueryParam reqQueryParams entry =
     (case reqQueryParams (fst entry) of
        None \<Rightarrow> False
      | Some reqValue \<Rightarrow>
          (if reqValue = [] then False
           else if fst entry = ''$select''
                   \<and> hasKeyField (map trim (splitComma (snd entry)))
                   \<and> hasKeyField (map trim (splitComma reqValue))
                then True
                else snd entry = reqValue))"

fun matchesQueryParams :: "(string \<times> string) list \<Rightarrow> (string \<rightharpoonup> string) \<Rightarrow> bool" where
  "matchesQueryParams [] reqQueryParams = True"
| "matchesQueryParams (entry # entries) reqQueryParams =
     (if matchesQueryParam reqQueryParams entry then matchesQueryParams entries reqQueryParams
      else False)"

text \<open>
  \<open>matchesRequest\<close>.  The two patterns are built from the rule's path by string replacement
  and handed to \<open>new RegExp\<close>; \<open>regexTest pattern path\<close> is the outcome of
  \<open>new RegExp(pattern).test(path)\<close>, a parameter (the model covers rule paths that give a
  valid pattern; for others the constructor throws).  \<open>toUpperCase\<close> is applied to the
  request's method, a token of ASCII letters; the three Latin-1 letters whose capital lies
  outside Latin-1 are left as they are.
\<close>

definition toUpperChar :: "char \<Rightarrow> char" where
  "toUpperChar c =
     (case map_of (zip lowerChars upperChars) c of None \<Rightarrow> c | Some u \<Rightarrow> u)"

definition toUpperCase :: "string \<Rightarrow> string" where
  "toUpperCase s = map toUpperChar s"

definition escapeSlashes :: "string \<Rightarrow> string" where
  "escapeSlashes s = concat (map (\<lambda>c. if c = CHR ''/'' then [CHR 0x5C, CHR ''/''] else [c]) s)"

definition wildcardPattern :: "string \<Rightarrow> string" where
  "wildcardPattern mockPath =
     escapeSlashes (concat (map (\<lambda>c. if c = CHR ''*'' then ''.*'' else [c]) mockPath))"

text \<open>
  \<open>mockPath.replace(/:[^\/]+/g, '[^/]+')\<close>: a colon with the characters up to the next
  slash (at least one) becomes \<open>[^/]+\<close>.  The flag says that such a parameter is being skipped.
\<close>

fun replaceParams :: "bool \<Rightarrow> string \<Rightarrow> string" where
  "replaceParams inParam [] = []"
| "replaceParams inParam (c # cs) =
     (if inParam
      then (if c = CHR ''/'' then c # replaceParams False cs else replaceParams True cs)
      else if c = CHR '':'' \<and> (case cs of [] \<Rightarrow> False | d # _ \<Rightarrow> d \<noteq> CHR ''/'')
           then ''[^/]+'' @ replaceParams True cs
           else c # replaceParams False cs)"

definition paramPattern :: "string \<Rightarrow> string" where
  "paramPattern mockPath = escapeSlashes (replaceParams False mockPath)"

definition queryMatches :: "mock \<Rightarrow> request \<Rightarrow> bool" where
  "queryMatches m req =
     (case request_queryParams m of
        None \<Rightarrow> True
      | Some params \<Rightarrow> matchesQueryParams params (req_query req))"

definition matchesRequest :: "(string \<Rightarrow> string \<Rightarrow> bool) \<Rightarrow> mock \<Rightarrow> request \<Rightarrow> bool" where
  "matchesRequest regexTest m req =
     (if request_method m \<noteq> toUpperCase (req_method req) then False
      else
        (let mockPath = takeWhile (\<lambda>c. c \<noteq> CHR ''?'') (request_endpoint m);
             reqPath = req_path req
         in if mockPath = reqPath then queryMatches m req
            else if CHR ''*'' \<in> set mockPath
                    \<and> regexTest (''^'' @ wildcardPattern mockPath @ ''$'') reqPath
                 then queryMatches m req
            else if CHR '':'' \<in> set mockPath
                    \<and> regexTest (''^'' @ paramPattern mockPath @ ''$'') reqPath
                 then queryMatches m req
            else False))"

text \<open>\<open>findMatchingMock\<close>: the first loaded rule that matches, or \<open>null\<close>.\<close>

definition findMatchingMock :: "(string \<Rightarrow> string \<Rightarrow> bool) \<Rightarrow> mock list \<Rightarrow> request \<Rightarrow> mock option" where
  "findMatchingMock regexTest mocks req = find (\<lambda>m. matchesRequest regexTest m req) mocks"

section \<open>A necessary condition for a match\<close>

text \<open>
  A match of an alternative contains every character that the alternative asks for literally
  and once.  \<open>canMatch s re\<close> holds when \<open>s\<close> has all these characters for at least one
  alternative of \<open>re\<close>.
\<close>

definition literalChars :: "item list \<Rightarrow> char list" where
  "literalChars items = concat (map (\<lambda>i. case i of One (Lit c) \<Rightarrow> [c] | _ \<Rightarrow> []) items)"

definition canMatch :: "string \<Rightarrow> regex \<Rightarrow> bool" where
  "canMatch s re = list_ex (\<lambda>alt. list_all (\<lambda>c. c \<in> set s) (literalChars alt)) re"

text \<open>All regular expressions that \<open>isJavaScriptContent\<close> uses.\<close>

definition classifierRegexes :: "regex list" where
  "classifierRegexes =
     jsPatterns @ [jsIndicatorFirst] @ jsIndicatorsGlobal @
     [[lits ''ReactDOM'', lits ''React.__SECRET_INTERNALS'',
       lits ''ReactCurrentDispatcher'', lits ''ReactDebugCurrentFrame''],
      [lits ''\"object\"==typeof exports&&\"undefined\"!=typeof module''],
      [lits ''!function(e,t){\"use strict\"''],
      [lits ''this,(function(e,t)'']]"

text \<open>
  \<open>noMatch content re\<close>: \<open>re\<close> matches nowhere in \<open>content\<close>.  The matcher is run only if
  the necessary condition holds.
\<close>

definition noMatch :: "string \<Rightarrow> regex \<Rightarrow> bool" where
  "noMatch content re =
     (if canMatch content re then \<not> test re content \<and> matchAll re content = [] else True)"

section \<open>Example sites\<close>

text \<open>A site with no snippets, templates or pages.\<close>

definition emptyConfig :: config where
  "emptyConfig =
     \<lparr>snippetsDir = (\<lambda>slug. None), templatesDir = (\<lambda>slug. None),
      contentPagesDir = (\<lambda>directory. None), liquidExcludes = Some []\<rparr>"

text \<open>A site whose template \<open>A\<close> includes \<open>B\<close> and whose template \<open>B\<close> includes \<open>A\<close>.\<close>

definition cyclicConfig :: config where
  "cyclicConfig =
     emptyConfig\<lparr>templatesDir := (\<lambda>slug.
        if slug = ''a'' then Some (Directory [(''A.webtemplate.source.html'', ''a{% include 'B' %}'')])
        else if slug = ''b'' then Some (Directory [(''B.webtemplate.source.html'', ''b{% include 'A' %}'')])
        else None)\<rparr>"

text \<open>
  A site whose snippet \<open>Widget\<close> has a bare and a language-qualified file, listed in
  alphabetical order, and which also has a template \<open>Widget\<close>.
\<close>

definition widgetConfig :: config where
  "widgetConfig =
     emptyConfig
       \<lparr>snippetsDir := (\<lambda>slug.
          if slug = ''widget''
          then Some (Directory [(''Widget.contentsnippet.value.html'', ''bare''),
                                (''Widget.en-US.contentsnippet.value.html'', ''localized'')])
          else None),
        templatesDir := (\<lambda>slug.
          if slug = ''widget''
          then Some (Directory [(''Widget.webtemplate.source.html'', ''template'')])
          else None)\<rparr>"

text \<open>A site whose template \<open>R\<close> is a script that begins with a line comment.\<close>

definition scriptConfig :: config where
  "scriptConfig =
     emptyConfig\<lparr>templatesDir := (\<lambda>slug.
        if slug = ''r'' then Some (Directory [(''R.webtemplate.source.html'', ''//'')])
        else None)\<rparr>"

text \<open>
  A site with a page \<open>home\<close> that has English content only, a page \<open>empty\<close> without content
  files and a page \<open>broken\<close> whose \<open>content-pages\<close> entry is not a directory.
\<close>

definition pagesConfig :: config where
  "pagesConfig =
     emptyConfig\<lparr>contentPagesDir := (\<lambda>directory.
        if directory = ''home''
        then Some (Directory [(''Home.en-US.webpage.copy.html'', ''<h1>Home</h1>''),
                              (''Home.en-US.webpage.custom_css.css'', ''h1 { color: red }'')])
        else if directory = ''empty'' then Some (Directory [(''Empty.webpage.yml'', ''x'')])
        else if directory = ''broken'' then Some NotADirectory
        else None)\<rparr>"

text \<open>
  A site with a template \<open>Header\<close> and a snippet \<open>Tracking Code\<close>, both markup with one
  expression.
\<close>

definition headerConfig :: config where
  "headerConfig =
     emptyConfig
       \<lparr>snippetsDir := (\<lambda>slug.
          if slug = ''tracking-code''
          then Some (Directory [(''Tracking Code.contentsnippet.value.html'',
                                 ''<p>{{ user.fullname }}</p>'')])
          else None),
        templatesDir := (\<lambda>slug.
          if slug = ''header''
          then Some (Directory [(''Header.webtemplate.source.html'', ''<p>{{ user.fullname }}</p>'')])
          else None)\<rparr>"

text \<open>
  Include resolution as the specification words it: the snippet directory first, there a
  language-qualified snippet file before any other \<open>.html\<close> file, and the template directory
  when no snippet file is found.
\<close>

definition processInclude_lookup_spec :: "config \<Rightarrow> string \<Rightarrow> error + string" where
  "processInclude_lookup_spec cfg includeName =
     (case (case snippetsDir cfg (normalizeName includeName) of
              None \<Rightarrow> Inr None
            | Some entry \<Rightarrow>
                map_sum id
                  (\<lambda>files. orElse (findMatching (languageQualified ''.contentsnippet.value.html'') files)
                             (findEndsWith ''.html'' files))
                  (readdir entry)) of
        Inl e \<Rightarrow> Inl e
      | Inr (Some snippetFile) \<Rightarrow> Inr (readFile snippetFile)
      | Inr None \<Rightarrow>
          (case templatesDir cfg (normalizeName includeName) of
             None \<Rightarrow> Inr []
           | Some entry \<Rightarrow>
               map_sum id
                 (\<lambda>files. readOptional (findEndsWith ''.webtemplate.source.html'' files))
                 (readdir entry)))"

text \<open>Two rules for the same request, and the request.\<close>

definition ruleA :: mock where
  "ruleA =
     \<lparr>mock_id = ''a'', enabled = True, priority = 5, createdAt = 1000,
      request_method = ''GET'', request_endpoint = ''/_api/incidents'',
      request_queryParams = None\<rparr>"

definition ruleB :: mock where
  "ruleB =
     \<lparr>mock_id = ''b'', enabled = True, priority = 1, createdAt = 2000,
      request_method = ''GET'', request_endpoint = ''/_api/incidents'',
      request_queryParams = None\<rparr>"

definition incidentsRequest :: request where
  "incidentsRequest =
     \<lparr>req_method = ''GET'', req_path = ''/_api/incidents'', req_query = Map.empty\<rparr>"

text \<open>The list is in the order of \<open>saveMock\<close>: by priority, then by creation date, both descending.\<close>

definition sortedMocks :: "mock list \<Rightarrow> bool" where
  "sortedMocks mocks = sorted_wrt (\<lambda>a b. compareMocks a b \<le> 0) mocks"

section \<open>Properties\<close>

subsection \<open>Matching\<close>

lemma matchHere_needs_lits:
  "matchHere items prev s = Some m \<Longrightarrow> One (Lit c) \<in> set items \<Longrightarrow> c \<in> set s"
  by (induction items prev s arbitrary: m rule: matchHere.induct) (auto split: if_splits option.splits)

lemma literalChars_set: "c \<in> set (literalChars items) \<longleftrightarrow> One (Lit c) \<in> set items"
proof (induction items)
  case Nil
  then show ?case by (simp add: literalChars_def)
next
  case (Cons i items)
  then show ?case
    by (cases i rule: item.exhaust; cases "case i of One k \<Rightarrow> k | _ \<Rightarrow> Space" rule: cclass.exhaust)
       (auto simp: literalChars_def split: item.splits cclass.splits)
qed

lemma matchAlternatives_canMatch:
  "matchAlternatives re prev s = Some m \<Longrightarrow> set s \<subseteq> set t \<Longrightarrow> canMatch t re"
proof (induction re)
  case Nil
  then show ?case by simp
next
  case (Cons a re)
  show ?case
  proof (cases "matchHere a prev s")
    case None
    with Cons show ?thesis by (simp add: canMatch_def)
  next
    case (Some m')
    then have "\<forall>c \<in> set (literalChars a). c \<in> set s"
      using matchHere_needs_lits by (simp add: literalChars_set)
    with Cons.prems(2) show ?thesis
      by (auto simp: canMatch_def list_all_iff)
  qed
qed

lemma testFrom_canMatch:
  "testFrom re prev s \<Longrightarrow> set s \<subseteq> set t \<Longrightarrow> canMatch t re"
proof (induction s arbitrary: prev)
  case Nil
  then show ?case using matchAlternatives_canMatch [of re prev "[]" _ t] by auto
next
  case (Cons c s)
  then show ?case using matchAlternatives_canMatch [of re prev "c # s" _ t] by auto
qed

lemma matchAllFrom_canMatch:
  "matchAllFrom re prev k s \<noteq> [] \<Longrightarrow> set s \<subseteq> set t \<Longrightarrow> canMatch t re"
proof (induction s arbitrary: prev k)
  case Nil
  then show ?case using matchAlternatives_canMatch [of re prev "[]" _ t]
    by (auto split: if_splits option.splits)
next
  case (Cons c s)
  then show ?case using matchAlternatives_canMatch [of re prev "c # s" _ t]
    by (auto split: if_splits option.splits)
qed

lemma not_canMatch_test: "\<not> canMatch s re \<Longrightarrow> \<not> test re s"
  using testFrom_canMatch [of re None s s] by (auto simp: test_def)

lemma not_canMatch_matchAll: "\<not> canMatch s re \<Longrightarrow> matchAll re s = []"
  using matchAllFrom_canMatch [of re None 0 s s] by (auto simp: matchAll_def)

lemma sum_list_zero: "(\<And>x. x \<in> set xs \<Longrightarrow> f x = 0) \<Longrightarrow> sum_list (map f xs) = (0::nat)"
  by (induction xs) auto

lemma noMatch_test: "noMatch s re \<Longrightarrow> \<not> test re s"
  using not_canMatch_test [of s re] by (auto simp: noMatch_def split: if_splits)

lemma noMatch_matchAll: "noMatch s re \<Longrightarrow> matchAll re s = []"
  using not_canMatch_matchAll [of s re] by (auto simp: noMatch_def split: if_splits)

lemma not_isJavaScriptContent:
  assumes regexes: "list_all (noMatch content) classifierRegexes"
    and excludes: "liquidExcludes cfg = Some [] \<or> liquidExcludes cfg = None"
  shows "\<not> isJavaScriptContent cfg content"
proof -
  have no: "\<And>re. re \<in> set classifierRegexes \<Longrightarrow> noMatch content re"
    using regexes by (simp add: list_all_iff)
  have pats: "\<not> list_ex (\<lambda>pattern. test pattern content) jsPatterns"
    using no noMatch_test by (auto simp: list_ex_iff classifierRegexes_def)
  have first: "\<not> test jsIndicatorFirst content"
    using no noMatch_test by (simp add: classifierRegexes_def)
  have glob: "\<And>re. re \<in> set jsIndicatorsGlobal \<Longrightarrow> length (matchAll re content) = 0"
    using no noMatch_matchAll by (simp add: classifierRegexes_def)
  have count: "indicatorCount content = 0"
    using first sum_list_zero [of jsIndicatorsGlobal "\<lambda>pattern. length (matchAll pattern content)", OF glob]
    by (simp add: indicatorCount_def)
  have sig: "\<not> test [lits ''ReactDOM'', lits ''React.__SECRET_INTERNALS'',
       lits ''ReactCurrentDispatcher'', lits ''ReactDebugCurrentFrame''] content"
    by (rule noMatch_test, rule no) (simp add: classifierRegexes_def)
  have umd: "\<not> test [lits ''\"object\"==typeof exports&&\"undefined\"!=typeof module''] content"
    by (rule noMatch_test, rule no) (simp add: classifierRegexes_def)
  have min1: "\<not> test [lits ''!function(e,t){\"use strict\"''] content"
    by (rule noMatch_test, rule no) (simp add: classifierRegexes_def)
  have min2: "\<not> test [lits ''this,(function(e,t)''] content"
    by (rule noMatch_test, rule no) (simp add: classifierRegexes_def)
  have fn: "matchAll [lits ''function'' @ [Star Space] @ lits ''(''] content = []"
    by (rule noMatch_matchAll, rule no) (simp add: classifierRegexes_def jsIndicatorsGlobal_def)
  show ?thesis
    unfolding isJavaScriptContent_def Let_def
    using pats sig umd min1 min2 fn count excludes by auto
qed

subsection \<open>Slugs\<close>

lemma upper_lower_disjoint: "set lowerChars \<inter> set upperChars = {}"
  by (simp add: lowerChars_def upperChars_def)

lemma length_upper_lower: "length upperChars = length lowerChars"
  by (simp add: lowerChars_def upperChars_def)

lemma toLowerChar_cases:
  "toLowerChar c = c \<or> toLowerChar c \<in> set lowerChars"
proof (cases "map_of (zip upperChars lowerChars) c")
  case None
  then show ?thesis by (simp add: toLowerChar_def)
next
  case (Some l)
  then have "(c, l) \<in> set (zip upperChars lowerChars)" by (rule map_of_SomeD)
  then have "l \<in> set lowerChars" by (rule set_zip_rightD)
  with Some show ?thesis by (simp add: toLowerChar_def)
qed

lemma toLowerChar_lower: "l \<in> set lowerChars \<Longrightarrow> toLowerChar l = l"
proof -
  assume "l \<in> set lowerChars"
  with upper_lower_disjoint have "l \<notin> set upperChars" by blast
  then have "map_of (zip upperChars lowerChars) l = None"
    by (simp add: map_of_zip_is_None [OF length_upper_lower])
  then show ?thesis by (simp add: toLowerChar_def)
qed

lemma toLowerChar_idem: "toLowerChar (toLowerChar c) = toLowerChar c"
  using toLowerChar_cases [of c] toLowerChar_lower [of "toLowerChar c"] by auto

lemma toLowerChar_dash: "toLowerChar CHR ''-'' = CHR ''-''"
  by (simp add: toLowerChar_def upperChars_def lowerChars_def)

lemma not_isSpace_dash: "\<not> isSpace CHR ''-''"
  by (simp add: isSpace_def)

lemma replaceSpaceRuns_no_space:
  "list_all (\<lambda>c. \<not> isSpace c) (replaceSpaceRuns b s)"
  by (induction s arbitrary: b) (simp_all add: not_isSpace_dash)

lemma replaceSpaceRuns_lower:
  "list_all (\<lambda>c. toLowerChar c = c) s \<Longrightarrow>
   list_all (\<lambda>c. toLowerChar c = c) (replaceSpaceRuns b s)"
  by (induction s arbitrary: b) (simp_all add: toLowerChar_dash)

lemma replaceSpaceRuns_id:
  "list_all (\<lambda>c. \<not> isSpace c) s \<Longrightarrow> replaceSpaceRuns b s = s"
  by (induction s arbitrary: b) simp_all

lemma toLowerCase_id:
  "list_all (\<lambda>c. toLowerChar c = c) s \<Longrightarrow> toLowerCase s = s"
  by (induction s) (simp_all add: toLowerCase_def)

lemma toLowerCase_lower: "list_all (\<lambda>c. toLowerChar c = c) (toLowerCase s)"
  by (induction s) (simp_all add: toLowerCase_def toLowerChar_idem)

lemma normalize_fixed: "normalizeName (normalizeName x) = normalizeName x"
proof -
  have low: "list_all (\<lambda>c. toLowerChar c = c) (normalizeName x)"
    unfolding normalizeName_def by (rule replaceSpaceRuns_lower [OF toLowerCase_lower])
  have nsp: "list_all (\<lambda>c. \<not> isSpace c) (normalizeName x)"
    unfolding normalizeName_def by (rule replaceSpaceRuns_no_space)
  have "normalizeName (normalizeName x) = replaceSpaceRuns False (normalizeName x)"
    by (simp add: normalizeName_def [of "normalizeName x"] toLowerCase_id [OF low])
  also have "\<dots> = normalizeName x"
    by (rule replaceSpaceRuns_id [OF nsp])
  finally show ?thesis .
qed

text \<open>
  C6.  Slug normalisation (lower-casing, then each run of white space to one hyphen) is
  idempotent for every string, and it maps \<open>Global React Components\<close> to
  \<open>global-react-components\<close>.
\<close>

theorem normalize_idempotent:
  "normalizeName (normalizeName x) = normalizeName x \<and>
   normalizeName ''Global React Components'' = ''global-react-components''"
proof
  show "normalizeName (normalizeName x) = normalizeName x" by (rule normalize_fixed)
  show "normalizeName ''Global React Components'' = ''global-react-components''"
    by code_simp
qed

subsection \<open>Include preprocessing\<close>

lemma preprocessIncludes_past_limit:
  "depth > 10 \<Longrightarrow> preprocessIncludes cfg templateContent depth = templateContent"
  by (simp add: preprocessIncludes.simps)

lemma cyclic_expansion:
  "preprocessIncludes cyclicConfig ''{% include 'A' %}'' 0 = ''abababababa{% include 'B' %}''"
  by code_simp

lemma cyclic_token_left:
  "matchAll includeRe ''abababababa{% include 'B' %}'' = [(''{% include 'B' %}'', ''B'')]"
  by code_simp

lemma preprocessIncludes_total:
  "All preprocessIncludes_loadSnippetContent_processInclude_dom"
  by (relation "measure (\<lambda>call. case call of
          Inl (cfg, templateContent, depth) \<Rightarrow> 2 * (11 - depth)
        | Inr (Inl (cfg, snippetName, depth)) \<Rightarrow> 2 * (11 - depth) + 1
        | Inr (Inr (cfg, includeName, depth)) \<Rightarrow> 2 * (11 - depth) + 1)")
     auto

text \<open>
  C1.  \<open>preprocessIncludes\<close> terminates for every site, every source and every starting
  depth, cyclic include graphs included: every call lies in the domain of the recursion,
  that is, every chain of nested calls that starts from it is finite (the measure
  \<open>11 - depth\<close> bounds it).  Past depth 10 the text is returned as it is.  On the site where
  \<open>A\<close> includes \<open>B\<close> and \<open>B\<close> includes \<open>A\<close>, expanding \<open>{% include 'A' %}\<close> from depth 0
  yields eleven levels of content followed by the include token of the last level,
  unexpanded.
\<close>

theorem preprocessIncludes_depth_limit:
  "preprocessIncludes_loadSnippetContent_processInclude_dom (Inl (cfg, templateContent, depth))
   \<and> (depth > 10 \<longrightarrow> preprocessIncludes cfg templateContent depth = templateContent)
   \<and> preprocessIncludes cyclicConfig ''{% include 'A' %}'' 0 = ''abababababa{% include 'B' %}''
   \<and> matchAll includeRe (preprocessIncludes cyclicConfig ''{% include 'A' %}'' 0)
       = [(''{% include 'B' %}'', ''B'')]"
proof (intro conjI impI)
  show "preprocessIncludes_loadSnippetContent_processInclude_dom (Inl (cfg, templateContent, depth))"
    using preprocessIncludes_total by simp
next
  assume "depth > 10"
  then show "preprocessIncludes cfg templateContent depth = templateContent"
    by (rule preprocessIncludes_past_limit)
next
  show "preprocessIncludes cyclicConfig ''{% include 'A' %}'' 0 = ''abababababa{% include 'B' %}''"
    by (rule cyclic_expansion)
next
  show "matchAll includeRe (preprocessIncludes cyclicConfig ''{% include 'A' %}'' 0)
       = [(''{% include 'B' %}'', ''B'')]"
    by (simp only: cyclic_expansion cyclic_token_left)
qed

theorem preprocessIncludes_depth_limit_witness:
  "preprocessIncludes_loadSnippetContent_processInclude_dom
     (Inl (cyclicConfig, ''b{% include 'A' %}'', 11))
   \<and> (11::nat) > 10
   \<and> preprocessIncludes cyclicConfig ''b{% include 'A' %}'' 11 = ''b{% include 'A' %}''"
  using preprocessIncludes_depth_limit [where cfg = cyclicConfig
      and templateContent = "''b{% include 'A' %}''" and depth = 11]
  by simp

lemma processInclude_lookup_missing:
  "snippetsDir cfg (normalizeName includeName) = None \<Longrightarrow>
   templatesDir cfg (normalizeName includeName) = None \<Longrightarrow>
   processInclude_lookup cfg includeName = Inr []"
  by (simp add: processInclude_lookup_def)

lemma processInclude_unresolved:
  "processInclude_lookup cfg includeName = Inr [] \<Longrightarrow>
   processInclude cfg includeName depth = ''<!-- Include not found: '' @ includeName @ '' -->''"
  by (simp add: includeNotFound_def)

lemma ghost_widget:
  "preprocessIncludes emptyConfig ''<p>{% include 'Ghost Widget' %}</p>'' 0
     = ''<p><!-- Include not found: Ghost Widget --></p>''"
  by code_simp

text \<open>
  C3.  \<open>processInclude\<close> returns the marker \<open><!-- Include not found: {name} -->\<close> with the
  name as written (lemma \<open>processInclude_unresolved\<close>), and the missing name
  \<open>Ghost Widget\<close> is rendered so (lemma \<open>ghost_widget\<close>).  But \<open>preprocessIncludes\<close>
  puts the marker into the output with \<open>processedContent.replace(match[0], includeContent)\<close>,
  where the marker is a replacement string and its dollar patterns are expanded.  For the
  missing name \<open>A$$B\<close> the output holds \<open><!-- Include not found: A$B -->\<close> and not the marker
  with the name as written.
\<close>

theorem include_marker_dollar:
  "processInclude emptyConfig ''A$$B'' 1 = ''<!-- Include not found: A$$B -->''
   \<and> preprocessIncludes emptyConfig ''<p>{% include 'A$$B' %}</p>'' 0
       = ''<p><!-- Include not found: A$B --></p>''
   \<and> \<not> includesStr (preprocessIncludes emptyConfig ''<p>{% include 'A$$B' %}</p>'' 0)
           ''<!-- Include not found: A$$B -->''"
  by code_simp

subsection \<open>Snippet references\<close>

lemma loadSnippetContent_unresolved:
  "loadSnippetContent_lookup cfg snippetName = Inr None \<Longrightarrow>
   loadSnippetContent cfg snippetName depth = snippetNotFound snippetName"
  by simp

lemma loadSnippetContent_lookup_missing:
  "snippetsDir cfg (normalizeName snippetName) = None \<Longrightarrow>
   loadSnippetContent_lookup cfg snippetName = Inr None"
  by (simp add: loadSnippetContent_lookup_def)

lemma renderSnippet_unresolved:
  "fst (getSnippet cfg yamlParse cache snippetName) = None \<Longrightarrow>
   fst (renderSnippet cfg yamlParse rend (cache, engine) snippetName data)
     = Inr (snippetNotFound snippetName)"
  by (cases "getSnippet cfg yamlParse cache snippetName") (simp add: renderSnippet_def)

lemma markers_differ: "snippetNotFound name \<noteq> includeNotFound name"
  by (simp add: snippetNotFound_def includeNotFound_def)

text \<open>
  A replacement string without a dollar sign is inserted as it is, so a marker whose name
  holds no dollar sign reaches the output unchanged.
\<close>

lemma getSubstitution_literal:
  "CHR ''$'' \<notin> set replacement \<Longrightarrow>
   getSubstitution matched front rest replacement = replacement"
  by (induction matched front rest replacement rule: getSubstitution.induct) auto

lemma replaceFirst_literal:
  "indexOf s pattern = Some (front, rest) \<Longrightarrow> CHR ''$'' \<notin> set replacement \<Longrightarrow>
   replaceFirst s pattern replacement = front @ replacement @ rest"
  by (simp add: replaceFirst_def getSubstitution_literal)

text \<open>
  The missing snippet \<open>Footer\<close>, referred to in each of the three forms: the output holds the
  snippet marker and not the include marker.
\<close>

lemma snippet_reference_scenarios:
  "preprocessIncludes emptyConfig ''<p>{{ Snippets.Footer }}</p>'' 0
     = ''<p><!-- Snippet not found: Footer --></p>''
   \<and> \<not> includesStr (preprocessIncludes emptyConfig ''<p>{{ Snippets.Footer }}</p>'' 0)
           ''<!-- Include not found: Footer -->''"
  by code_simp

lemma snippet_reference_scenario2:
  "fst (processSnippetReferences emptyConfig (\<lambda>t. Inr ()) (\<lambda>s t d. (Inr t, s)) (Map.empty, ())
          ''<p>{{ snippets[\"Footer\"] }}</p>'' ())
     = Inr ''<p><!-- Snippet not found: Footer --></p>''"
  by code_simp

lemma snippet_reference_scenario3:
  "fst (processSnippetReferences emptyConfig (\<lambda>t. Inr ()) (\<lambda>s t d. (Inr t, s)) (Map.empty, ())
          ''<p>{% editable snippets \"Footer\" %}</p>'' ())
     = Inr ''<p><!-- Snippet not found: Footer --></p>''"
  by code_simp

text \<open>
  C10.  \<open>loadSnippetContent\<close> (for \<open>{{ Snippets.Name }}\<close>) and \<open>renderSnippet\<close> (for
  \<open>{{ snippets["Name"] }}\<close> and \<open>{% editable snippets "Name" %}\<close>) return the marker
  \<open><!-- Snippet not found: {name} -->\<close> with the name as written (lemmas
  \<open>loadSnippetContent_unresolved\<close>, \<open>renderSnippet_unresolved\<close>), and it differs from the
  include marker (lemma \<open>markers_differ\<close>).  But \<open>preprocessIncludes\<close> and
  \<open>processSnippetReferences\<close> substitute it with \<open>processedContent.replace(match[0], ...)\<close>,
  where the marker is a replacement string and its dollar patterns are expanded.  For the
  missing name \<open>A$$B\<close> the substituted text is \<open><!-- Snippet not found: A$B -->\<close> in all three
  forms of reference, and the output of \<open>preprocessIncludes\<close> does not hold the marker with the
  name as written.
\<close>

theorem snippet_marker_dollar:
  "loadSnippetContent emptyConfig ''A$$B'' 1 = ''<!-- Snippet not found: A$$B -->''
   \<and> preprocessIncludes emptyConfig ''<p>{{ Snippets.A$$B }}</p>'' 0
       = ''<p><!-- Snippet not found: A$B --></p>''
   \<and> \<not> includesStr (preprocessIncludes emptyConfig ''<p>{{ Snippets.A$$B }}</p>'' 0)
           ''<!-- Snippet not found: A$$B -->''
   \<and> fst (renderSnippet emptyConfig (\<lambda>t. Inr ()) (\<lambda>s t d. (Inr t, s)) (Map.empty, ())
             ''A$$B'' ())
       = Inr ''<!-- Snippet not found: A$$B -->''
   \<and> fst (processSnippetReferences emptyConfig (\<lambda>t. Inr ()) (\<lambda>s t d. (Inr t, s))
             (Map.empty, ()) ''<p>{{ snippets[\"A$$B\"] }}</p>'' ())
       = Inr ''<p><!-- Snippet not found: A$B --></p>''
   \<and> fst (processSnippetReferences emptyConfig (\<lambda>t. Inr ()) (\<lambda>s t d. (Inr t, s))
             (Map.empty, ()) ''<p>{% editable snippets \"A$$B\" %}</p>'' ())
       = Inr ''<p><!-- Snippet not found: A$B --></p>''"
  by code_simp

subsection \<open>Include resolution\<close>

text \<open>
  C2, as stated, fails: on the site whose snippet \<open>Widget\<close> has the files
  \<open>Widget.contentsnippet.value.html\<close> and \<open>Widget.en-US.contentsnippet.value.html\<close>,
  \<open>processInclude\<close> reads the bare file, the first \<open>.html\<close> file of the listing, where the
  resolution worded by the specification reads the language-qualified one.
\<close>

theorem language_preference_counterexample:
  "processInclude_lookup widgetConfig ''Widget'' = Inr ''bare''
   \<and> processInclude_lookup_spec widgetConfig ''Widget'' = Inr ''localized''"
  by code_simp

lemma processInclude_lookup_snippet:
  "snippetsDir cfg (normalizeName includeName) = Some (Directory files) \<Longrightarrow>
   findEndsWith ''.html'' files = Some htmlFile \<Longrightarrow>
   processInclude_lookup cfg includeName = Inr (snd htmlFile)"
  by (simp add: processInclude_lookup_def readdir_def readFile_def)

lemma processInclude_lookup_template:
  "snippetsDir cfg (normalizeName includeName) = None \<Longrightarrow>
   templatesDir cfg (normalizeName includeName) = Some (Directory files) \<Longrightarrow>
   findEndsWith ''.webtemplate.source.html'' files = Some webtemplateFile \<Longrightarrow>
   processInclude_lookup cfg includeName = Inr (snd webtemplateFile)"
  by (simp add: processInclude_lookup_def readdir_def readFile_def)

text \<open>
  C2, amended.  For every include name: if the snippet directory of its slug holds a file
  whose name ends in \<open>.html\<close>, the first such file in the order of the listing is read,
  whether or not its name is language-qualified, and the template directory plays no part;
  if there is no snippet directory, the first \<open>.webtemplate.source.html\<close> file of the template
  directory is read; if there is neither directory, the result is the not-found marker.
\<close>

theorem include_resolution_order:
  "(snippetsDir cfg (normalizeName includeName) = Some (Directory files)
      \<and> findEndsWith ''.html'' files = Some htmlFile
      \<longrightarrow> processInclude_lookup cfg includeName = Inr (snd htmlFile))
   \<and> (snippetsDir cfg (normalizeName includeName) = None
      \<and> templatesDir cfg (normalizeName includeName) = Some (Directory files)
      \<and> findEndsWith ''.webtemplate.source.html'' files = Some webtemplateFile
      \<longrightarrow> processInclude_lookup cfg includeName = Inr (snd webtemplateFile))
   \<and> (snippetsDir cfg (normalizeName includeName) = None
      \<and> templatesDir cfg (normalizeName includeName) = None
      \<longrightarrow> processInclude cfg includeName depth
            = ''<!-- Include not found: '' @ includeName @ '' -->'')"
  using processInclude_lookup_snippet [of cfg includeName files htmlFile]
    processInclude_lookup_template [of cfg includeName files webtemplateFile]
    processInclude_unresolved [OF processInclude_lookup_missing, of cfg includeName depth]
  by blast

lemma widget_snippet_dir:
  "snippetsDir widgetConfig (normalizeName ''Widget'')
     = Some (Directory [(''Widget.contentsnippet.value.html'', ''bare''),
                        (''Widget.en-US.contentsnippet.value.html'', ''localized'')])"
  by code_simp

lemma widget_first_html:
  "findEndsWith ''.html'' [(''Widget.contentsnippet.value.html'', ''bare''),
                        (''Widget.en-US.contentsnippet.value.html'', ''localized'')]
     = Some (''Widget.contentsnippet.value.html'', ''bare'')"
  by code_simp

lemma cyclic_dirs:
  "snippetsDir cyclicConfig (normalizeName ''A'') = None
   \<and> templatesDir cyclicConfig (normalizeName ''A'')
       = Some (Directory [(''A.webtemplate.source.html'', ''a{% include 'B' %}'')])
   \<and> findEndsWith ''.webtemplate.source.html'' [(''A.webtemplate.source.html'', ''a{% include 'B' %}'')]
       = Some (''A.webtemplate.source.html'', ''a{% include 'B' %}'')"
  by code_simp

lemma empty_dirs:
  "snippetsDir emptyConfig slug = None \<and> templatesDir emptyConfig slug = None"
  by (simp add: emptyConfig_def)

theorem include_resolution_order_witness:
  "processInclude_lookup widgetConfig ''Widget'' = Inr ''bare''
   \<and> processInclude_lookup cyclicConfig ''A'' = Inr ''a{% include 'B' %}''
   \<and> processInclude emptyConfig ''Ghost Widget'' 1 = ''<!-- Include not found: Ghost Widget -->''"
  using include_resolution_order [of widgetConfig "''Widget''"
      "[(''Widget.contentsnippet.value.html'', ''bare''),
        (''Widget.en-US.contentsnippet.value.html'', ''localized'')]"
      "(''Widget.contentsnippet.value.html'', ''bare'')"]
    include_resolution_order [of cyclicConfig "''A''"
      "[(''A.webtemplate.source.html'', ''a{% include 'B' %}'')]" _
      "(''A.webtemplate.source.html'', ''a{% include 'B' %}'')"]
    include_resolution_order [of emptyConfig "''Ghost Widget''" _ _ _ 1]
    widget_snippet_dir widget_first_html cyclic_dirs empty_dirs
  by simp
subsection \<open>Rendering and the classifier\<close>

lemma isJavaScriptContent_line_comment:
  "test [[Bol, Star Space] @ lits ''//''] content \<Longrightarrow> isJavaScriptContent cfg content"
  by (simp add: isJavaScriptContent_def jsPatterns_def Let_def)

lemma render_code_source:
  "isJavaScriptContent cfg templateContent \<Longrightarrow>
   render cfg createMockData parseAndRender mockData templateContent additionalData
     = (Inr templateContent, mockData)"
  by (simp add: render_def)

lemma render_code_expanded:
  "\<not> isJavaScriptContent cfg templateContent \<Longrightarrow>
   (case mockData of Some d \<Rightarrow> Inr d | None \<Rightarrow> createMockData) = Inr d \<Longrightarrow>
   isJavaScriptContent cfg (preprocessIncludes cfg templateContent 0) \<Longrightarrow>
   render cfg createMockData parseAndRender mockData templateContent additionalData
     = (Inr (preprocessIncludes cfg templateContent 0), Some d)"
  by (simp add: render_def)

lemma render_engine_only_on_markup:
  "(\<And>text d a. \<not> isJavaScriptContent cfg text \<Longrightarrow> engine1 text d a = otherEngine text d a) \<Longrightarrow>
   render cfg createMockData engine1 mockData templateContent additionalData
     = render cfg createMockData otherEngine mockData templateContent additionalData"
  by (simp add: render_def Let_def split: sum.splits)

text \<open>
  C4, as stated, fails: the source \<open>//{% include 'Ghost' %}\<close> begins with a line comment,
  so the first check of \<open>render\<close> returns it as it is; its include-expanded form is
  classified as code too, and \<open>render\<close> does not return that expanded text.
\<close>

theorem render_unexpanded_counterexample:
  "isJavaScriptContent emptyConfig (preprocessIncludes emptyConfig ''//{% include 'Ghost' %}'' 0)
   \<and> fst (render emptyConfig (Inr ()) (\<lambda>text d a. Inr text) None ''//{% include 'Ghost' %}'' ())
       \<noteq> Inr (preprocessIncludes emptyConfig ''//{% include 'Ghost' %}'' 0)"
proof -
  have expanded: "preprocessIncludes emptyConfig ''//{% include 'Ghost' %}'' 0
      = ''//<!-- Include not found: Ghost -->''"
    by code_simp
  have "test [[Bol, Star Space] @ lits ''//''] ''//<!-- Include not found: Ghost -->''"
    by code_simp
  then have code1: "isJavaScriptContent emptyConfig ''//<!-- Include not found: Ghost -->''"
    by (rule isJavaScriptContent_line_comment)
  have "test [[Bol, Star Space] @ lits ''//''] ''//{% include 'Ghost' %}''"
    by code_simp
  then have code0: "isJavaScriptContent emptyConfig ''//{% include 'Ghost' %}''"
    by (rule isJavaScriptContent_line_comment)
  have "fst (render emptyConfig (Inr ()) (\<lambda>text d a. Inr text) None ''//{% include 'Ghost' %}'' ())
      = Inr ''//{% include 'Ghost' %}''"
    by (simp add: render_code_source [OF code0])
  with expanded code1 show ?thesis by simp
qed

text \<open>
  C4, amended.  \<open>render\<close> applies the classifier to the original source first, and a
  source classified as code is returned verbatim and unexpanded.  Otherwise, once the mock
  data is there, the includes are expanded and the classifier is applied again to the
  expanded text; when that is classified as code, the expanded text is returned verbatim.
  The expression engine is never run on text classified as code: two engines that agree on
  all other texts give the same result.
\<close>

theorem render_classifier:
  "(isJavaScriptContent cfg templateContent \<longrightarrow>
      render cfg createMockData parseAndRender mockData templateContent additionalData
        = (Inr templateContent, mockData))
   \<and> (\<not> isJavaScriptContent cfg templateContent
        \<and> (case mockData of Some d \<Rightarrow> Inr d | None \<Rightarrow> createMockData) = Inr d
        \<and> isJavaScriptContent cfg (preprocessIncludes cfg templateContent 0) \<longrightarrow>
      render cfg createMockData parseAndRender mockData templateContent additionalData
        = (Inr (preprocessIncludes cfg templateContent 0), Some d))
   \<and> ((\<forall>text d a. \<not> isJavaScriptContent cfg text \<longrightarrow> parseAndRender text d a = otherEngine text d a) \<longrightarrow>
      render cfg createMockData parseAndRender mockData templateContent additionalData
        = render cfg createMockData otherEngine mockData templateContent additionalData)"
proof (intro conjI impI)
  assume "isJavaScriptContent cfg templateContent"
  then show "render cfg createMockData parseAndRender mockData templateContent additionalData
      = (Inr templateContent, mockData)"
    by (rule render_code_source)
next
  assume "\<not> isJavaScriptContent cfg templateContent
      \<and> (case mockData of Some d \<Rightarrow> Inr d | None \<Rightarrow> createMockData) = Inr d
      \<and> isJavaScriptContent cfg (preprocessIncludes cfg templateContent 0)"
  then show "render cfg createMockData parseAndRender mockData templateContent additionalData
      = (Inr (preprocessIncludes cfg templateContent 0), Some d)"
    by (simp add: render_code_expanded)
next
  assume "\<forall>text d a. \<not> isJavaScriptContent cfg text \<longrightarrow> parseAndRender text d a = otherEngine text d a"
  then show "render cfg createMockData parseAndRender mockData templateContent additionalData
      = render cfg createMockData otherEngine mockData templateContent additionalData"
    by (intro render_engine_only_on_markup) simp
qed

lemma script_include_markup: "\<not> isJavaScriptContent scriptConfig ''{% include 'R' %}''"
proof (rule not_isJavaScriptContent)
  show "list_all (noMatch ''{% include 'R' %}'') classifierRegexes" by code_simp
  show "liquidExcludes scriptConfig = Some [] \<or> liquidExcludes scriptConfig = None"
    by (simp add: scriptConfig_def emptyConfig_def)
qed

lemma script_include_expanded: "preprocessIncludes scriptConfig ''{% include 'R' %}'' 0 = ''//''"
  by code_simp

lemma script_code: "isJavaScriptContent cfg ''//''"
proof (rule isJavaScriptContent_line_comment)
  show "test [[Bol, Star Space] @ lits ''//''] ''//''" by code_simp
qed

theorem render_classifier_witness:
  "isJavaScriptContent scriptConfig ''//''
   \<and> render scriptConfig (Inr ()) (\<lambda>text d a. Inl EngineError) None ''//'' () = (Inr ''//'', None)
   \<and> \<not> isJavaScriptContent scriptConfig ''{% include 'R' %}''
   \<and> isJavaScriptContent scriptConfig (preprocessIncludes scriptConfig ''{% include 'R' %}'' 0)
   \<and> render scriptConfig (Inr ()) (\<lambda>text d a. Inl EngineError) None ''{% include 'R' %}'' ()
       = (Inr ''//'', Some ())
   \<and> render scriptConfig (Inr ()) (\<lambda>text d a. Inl EngineError) None ''{% include 'R' %}'' ()
       = render scriptConfig (Inr ())
           (\<lambda>text d a. if isJavaScriptContent scriptConfig text then Inr text else Inl EngineError)
           None ''{% include 'R' %}'' ()"
proof -
  let ?fail = "\<lambda>(text::string) (d::unit) (a::unit). (Inl EngineError :: error + string)"
  let ?echo = "\<lambda>(text::string) (d::unit) (a::unit).
      if isJavaScriptContent scriptConfig text then Inr text else (Inl EngineError :: error + string)"
  note source = render_classifier [where cfg = scriptConfig and templateContent = "''//''"
      and createMockData = "Inr ()" and parseAndRender = ?fail and mockData = None
      and additionalData = "()" and otherEngine = ?echo and d = "()"]
  note expanded = render_classifier [where cfg = scriptConfig
      and templateContent = "''{% include 'R' %}''"
      and createMockData = "Inr ()" and parseAndRender = ?fail and mockData = None
      and additionalData = "()" and otherEngine = ?echo and d = "()"]
  have agree: "\<forall>text d a. \<not> isJavaScriptContent scriptConfig text \<longrightarrow> ?fail text d a = ?echo text d a"
    by simp
  have code: "isJavaScriptContent scriptConfig ''//''"
    by (rule script_code)
  have markup: "\<not> isJavaScriptContent scriptConfig ''{% include 'R' %}''"
    by (rule script_include_markup)
  have code': "isJavaScriptContent scriptConfig (preprocessIncludes scriptConfig ''{% include 'R' %}'' 0)"
    by (simp only: script_include_expanded code)
  have r1: "render scriptConfig (Inr ()) ?fail None ''//'' () = (Inr ''//'', None)"
    by (rule mp [OF conjunct1 [OF source] code])
  have "render scriptConfig (Inr ()) ?fail None ''{% include 'R' %}'' ()
      = (Inr (preprocessIncludes scriptConfig ''{% include 'R' %}'' 0), Some ())"
    by (rule mp [OF conjunct1 [OF conjunct2 [OF expanded]]]) (simp add: markup code')
  then have r2: "render scriptConfig (Inr ()) ?fail None ''{% include 'R' %}'' () = (Inr ''//'', Some ())"
    by (simp only: script_include_expanded)
  have r3: "render scriptConfig (Inr ()) ?fail None ''{% include 'R' %}'' ()
      = render scriptConfig (Inr ()) ?echo None ''{% include 'R' %}'' ()"
    by (rule mp [OF conjunct2 [OF conjunct2 [OF expanded]] agree])
  from code r1 markup code' r2 r3 show ?thesis
    by (intro conjI)
qed
subsection \<open>Errors of the engine\<close>

lemma render_engine_error:
  "\<not> isJavaScriptContent cfg templateContent \<Longrightarrow>
   (case mockData of Some d \<Rightarrow> Inr d | None \<Rightarrow> createMockData) = Inr d \<Longrightarrow>
   \<not> isJavaScriptContent cfg (preprocessIncludes cfg templateContent 0) \<Longrightarrow>
   parseAndRender (preprocessIncludes cfg templateContent 0) d additionalData = Inl e \<Longrightarrow>
   fst (render cfg createMockData parseAndRender mockData templateContent additionalData) = Inl e"
  by (simp add: render_def)

lemma renderTemplate_resolves:
  "\<exists>out. fst (renderTemplate cfg yamlParse rend state templateName data) = Inr out"
  by (auto simp: renderTemplate_def split: prod.splits option.splits sum.splits)

lemma renderTemplate_catches:
  "fst (getTemplate cfg yamlParse (fst state) templateName) = Some tmpl \<Longrightarrow>
   fst (rend (snd state) (template_content tmpl) data) = Inl e \<Longrightarrow>
   fst (renderTemplate cfg yamlParse rend state templateName data)
     = Inr (templateRenderError templateName)"
  by (auto simp: renderTemplate_def split: prod.splits option.splits sum.splits)

lemma renderSnippet_resolves:
  "\<exists>out. fst (renderSnippet cfg yamlParse rend state snippetName data) = Inr out"
  by (auto simp: renderSnippet_def split: prod.splits option.splits sum.splits)

lemma renderSnippet_catches:
  "fst (getSnippet cfg yamlParse (fst state) snippetName) = Some snip \<Longrightarrow>
   fst (rend (snd state) (snippet_content snip) data) = Inl e \<Longrightarrow>
   fst (renderSnippet cfg yamlParse rend state snippetName data)
     = Inr (snippetRenderError snippetName)"
  by (auto simp: renderSnippet_def split: prod.splits option.splits sum.splits)

lemma processPage_resolves:
  "\<exists>out. fst (processPage cfg yamlParse rend skeletonHead skeletonTail errorPage state page
                 liquidContext emptyData)
      = Inr out"
  by (auto simp: processPage_def split: prod.splits option.splits sum.splits)

lemma processPage_catches:
  "fst (rend (snd state) (page_content page) liquidContext) = Inl e \<Longrightarrow>
   fst (processPage cfg yamlParse rend skeletonHead skeletonTail errorPage state page
          liquidContext emptyData)
     = Inr (errorPage e)"
  by (auto simp: processPage_def split: prod.splits option.splits sum.splits)

text \<open>
  C5.  An error of the expression engine leaves \<open>render\<close> as a rejection (its \<open>catch\<close>
  block throws it again), and each caller of \<open>render\<close> catches it: \<open>renderTemplate\<close>,
  \<open>renderSnippet\<close> and \<open>processPage\<close> resolve for every engine, every site and every input,
  and when \<open>render\<close> rejects they resolve to the template-render-error comment, the
  snippet-render-error comment and the error page.
\<close>

theorem render_errors_caught:
  "(\<not> isJavaScriptContent cfg templateContent
      \<and> (case mockData of Some d \<Rightarrow> Inr d | None \<Rightarrow> createMockData) = Inr d
      \<and> \<not> isJavaScriptContent cfg (preprocessIncludes cfg templateContent 0)
      \<and> parseAndRender (preprocessIncludes cfg templateContent 0) d additionalData = Inl e
      \<longrightarrow> fst (render cfg createMockData parseAndRender mockData templateContent additionalData) = Inl e)
   \<and> (\<exists>out. fst (renderTemplate cfg yamlParse (render cfg createMockData parseAndRender)
                  (templatesCache, mockData) templateName additionalData) = Inr out)
   \<and> (fst (getTemplate cfg yamlParse templatesCache templateName) = Some tmpl
      \<and> fst (render cfg createMockData parseAndRender mockData (template_content tmpl) additionalData) = Inl e
      \<longrightarrow> fst (renderTemplate cfg yamlParse (render cfg createMockData parseAndRender)
                 (templatesCache, mockData) templateName additionalData)
            = Inr (''<!-- Template render error: '' @ templateName @ '' -->''))
   \<and> (\<exists>out. fst (renderSnippet cfg yamlParse (render cfg createMockData parseAndRender)
                  (snippetsCache, mockData) snippetName additionalData) = Inr out)
   \<and> (fst (getSnippet cfg yamlParse snippetsCache snippetName) = Some snip
      \<and> fst (render cfg createMockData parseAndRender mockData (snippet_content snip) additionalData) = Inl e
      \<longrightarrow> fst (renderSnippet cfg yamlParse (render cfg createMockData parseAndRender)
                 (snippetsCache, mockData) snippetName additionalData)
            = Inr (''<!-- Snippet render error: '' @ snippetName @ '' -->''))
   \<and> (\<exists>out. fst (processPage cfg yamlParse (render cfg createMockData parseAndRender)
                 skeletonHead skeletonTail errorPage
                  (snippetsCache, mockData) page additionalData emptyData) = Inr out)
   \<and> (fst (render cfg createMockData parseAndRender mockData (page_content page) additionalData) = Inl e
      \<longrightarrow> fst (processPage cfg yamlParse (render cfg createMockData parseAndRender)
                 skeletonHead skeletonTail errorPage
                 (snippetsCache, mockData) page additionalData emptyData)
            = Inr (errorPage e))"
proof (intro conjI impI)
  assume "\<not> isJavaScriptContent cfg templateContent
      \<and> (case mockData of Some d \<Rightarrow> Inr d | None \<Rightarrow> createMockData) = Inr d
      \<and> \<not> isJavaScriptContent cfg (preprocessIncludes cfg templateContent 0)
      \<and> parseAndRender (preprocessIncludes cfg templateContent 0) d additionalData = Inl e"
  then show "fst (render cfg createMockData parseAndRender mockData templateContent additionalData) = Inl e"
    by (simp add: render_engine_error)
next
  show "\<exists>out. fst (renderTemplate cfg yamlParse (render cfg createMockData parseAndRender)
                  (templatesCache, mockData) templateName additionalData) = Inr out"
    by (rule renderTemplate_resolves)
next
  assume "fst (getTemplate cfg yamlParse templatesCache templateName) = Some tmpl
      \<and> fst (render cfg createMockData parseAndRender mockData (template_content tmpl) additionalData) = Inl e"
  then show "fst (renderTemplate cfg yamlParse (render cfg createMockData parseAndRender)
                 (templatesCache, mockData) templateName additionalData)
            = Inr (''<!-- Template render error: '' @ templateName @ '' -->'')"
    using renderTemplate_catches [of cfg yamlParse "(templatesCache, mockData)" templateName tmpl
        "render cfg createMockData parseAndRender" additionalData e]
    by (simp add: templateRenderError_def)
next
  show "\<exists>out. fst (renderSnippet cfg yamlParse (render cfg createMockData parseAndRender)
                  (snippetsCache, mockData) snippetName additionalData) = Inr out"
    by (rule renderSnippet_resolves)
next
  assume "fst (getSnippet cfg yamlParse snippetsCache snippetName) = Some snip
      \<and> fst (render cfg createMockData parseAndRender mockData (snippet_content snip) additionalData) = Inl e"
  then show "fst (renderSnippet cfg yamlParse (render cfg createMockData parseAndRender)
                 (snippetsCache, mockData) snippetName additionalData)
            = Inr (''<!-- Snippet render error: '' @ snippetName @ '' -->'')"
    using renderSnippet_catches [of cfg yamlParse "(snippetsCache, mockData)" snippetName snip
        "render cfg createMockData parseAndRender" additionalData e]
    by (simp add: snippetRenderError_def)
next
  show "\<exists>out. fst (processPage cfg yamlParse (render cfg createMockData parseAndRender)
                 skeletonHead skeletonTail errorPage
                  (snippetsCache, mockData) page additionalData emptyData) = Inr out"
    by (rule processPage_resolves)
next
  assume "fst (render cfg createMockData parseAndRender mockData (page_content page) additionalData) = Inl e"
  then show "fst (processPage cfg yamlParse (render cfg createMockData parseAndRender)
                 skeletonHead skeletonTail errorPage
                 (snippetsCache, mockData) page additionalData emptyData)
            = Inr (errorPage e)"
    using processPage_catches [of "render cfg createMockData parseAndRender"
        "(snippetsCache, mockData)" page additionalData e cfg yamlParse skeletonHead skeletonTail
        errorPage emptyData]
    by simp
qed

lemma header_markup: "\<not> isJavaScriptContent headerConfig ''<p>{{ user.fullname }}</p>''"
proof (rule not_isJavaScriptContent)
  show "list_all (noMatch ''<p>{{ user.fullname }}</p>'') classifierRegexes" by code_simp
  show "liquidExcludes headerConfig = Some [] \<or> liquidExcludes headerConfig = None"
    by (simp add: headerConfig_def emptyConfig_def)
qed

lemma header_expanded:
  "preprocessIncludes headerConfig ''<p>{{ user.fullname }}</p>'' 0 = ''<p>{{ user.fullname }}</p>''"
  by code_simp

lemma header_template:
  "fst (getTemplate headerConfig (\<lambda>text. Inr ()) Map.empty ''Header'')
     = Some \<lparr>template_name = ''Header'', template_content = ''<p>{{ user.fullname }}</p>''\<rparr>"
  by code_simp

lemma tracking_snippet:
  "fst (getSnippet headerConfig (\<lambda>text. Inr ()) Map.empty ''Tracking Code'')
     = Some \<lparr>snippet_name = ''Tracking Code'', snippet_content = ''<p>{{ user.fullname }}</p>''\<rparr>"
  by code_simp

theorem render_errors_caught_witness:
  "fst (render headerConfig (Inr ()) (\<lambda>text d a. Inl EngineError) None
          ''<p>{{ user.fullname }}</p>'' ()) = Inl EngineError
   \<and> fst (renderTemplate headerConfig (\<lambda>text. Inr ())
            (render headerConfig (Inr ()) (\<lambda>text d a. Inl EngineError))
            (Map.empty, None) ''Header'' ()) = Inr ''<!-- Template render error: Header -->''
   \<and> fst (renderSnippet headerConfig (\<lambda>text. Inr ())
            (render headerConfig (Inr ()) (\<lambda>text d a. Inl EngineError))
            (Map.empty, None) ''Tracking Code'' ()) = Inr ''<!-- Snippet render error: Tracking Code -->''
   \<and> fst (processPage headerConfig (\<lambda>text. Inr ())
            (render headerConfig (Inr ()) (\<lambda>text d a. Inl EngineError))
            (\<lambda>css. Inr css) (\<lambda>html js. html @ js) (\<lambda>error. ''Server Error'')
                 (Map.empty, None)
            \<lparr>page_content = ''<p>{{ user.fullname }}</p>'', customCss = [], customJs = [],
             hasLanguageFile = True\<rparr> () ()) = Inr ''Server Error''"
proof -
  let ?src = "''<p>{{ user.fullname }}</p>''"
  let ?fail = "\<lambda>(text::string) (d::unit) (a::unit). (Inl EngineError :: error + string)"
  let ?yaml = "\<lambda>text::string. (Inr () :: error + unit)"
  let ?tmpl = "\<lparr>template_name = ''Header'', template_content = ?src\<rparr>"
  let ?snip = "\<lparr>snippet_name = ''Tracking Code'', snippet_content = ?src\<rparr>"
  let ?page = "\<lparr>page_content = ?src, customCss = [], customJs = [], hasLanguageFile = True\<rparr>"
  note inst = render_errors_caught [where cfg = headerConfig and templateContent = ?src
      and mockData = None and createMockData = "Inr ()" and d = "()" and parseAndRender = ?fail
      and additionalData = "()" and e = EngineError and yamlParse = ?yaml
      and templatesCache = Map.empty and templateName = "''Header''" and tmpl = ?tmpl
      and snippetsCache = Map.empty and snippetName = "''Tracking Code''" and snip = ?snip
      and skeletonHead = "\<lambda>css. Inr css" and skeletonTail = "\<lambda>html js. html @ js"
      and errorPage = "\<lambda>error. ''Server Error''"
      and page = ?page and emptyData = "()"]
  have r: "fst (render headerConfig (Inr ()) ?fail None ?src ()) = Inl EngineError"
    by (rule mp [OF conjunct1 [OF inst]]) (simp add: header_markup header_expanded)
  have t: "fst (renderTemplate headerConfig ?yaml (render headerConfig (Inr ()) ?fail)
                 (Map.empty, None) ''Header'' ()) = Inr ''<!-- Template render error: Header -->''"
    using mp [OF conjunct1 [OF conjunct2 [OF conjunct2 [OF inst]]]] header_template r by simp
  have s: "fst (renderSnippet headerConfig ?yaml (render headerConfig (Inr ()) ?fail)
                 (Map.empty, None) ''Tracking Code'' ())
             = Inr ''<!-- Snippet render error: Tracking Code -->''"
    using mp [OF conjunct1 [OF conjunct2 [OF conjunct2 [OF conjunct2 [OF conjunct2 [OF inst]]]]]]
      tracking_snippet r by simp
  have p: "fst (processPage headerConfig ?yaml (render headerConfig (Inr ()) ?fail)
                 (\<lambda>css. Inr css) (\<lambda>html js. html @ js) (\<lambda>error. ''Server Error'')
                 (Map.empty, None)
                 ?page () ()) = Inr ''Server Error''"
    using mp [OF conjunct2 [OF conjunct2 [OF conjunct2 [OF conjunct2 [OF conjunct2 [OF conjunct2 [OF inst]]]]]]]
      r by simp
  from r t s p show ?thesis by (intro conjI)
qed
subsection \<open>Page content\<close>

lemma startsWith_append: "startsWith s p \<Longrightarrow> s = p @ drop (length p) s"
  by (induction s p rule: startsWith.induct) auto

lemma indexOf_split: "indexOf s p = Some (front, back) \<Longrightarrow> s = front @ p @ back"
proof (induction s arbitrary: front)
  case Nil
  then show ?case by (simp split: if_splits)
next
  case (Cons c s)
  show ?case
  proof (cases "startsWith (c # s) p")
    case True
    with Cons.prems startsWith_append [OF True] show ?thesis by simp
  next
    case False
    with Cons.prems obtain front' where "indexOf s p = Some (front', back)" and "front = c # front'"
      by (auto split: option.splits)
    with Cons.IH [of front'] show ?thesis by simp
  qed
qed

lemma replaceFirst_dash: "replaceFirst language ''-'' ''-'' = language"
proof (cases "indexOf language ''-''")
  case None
  then show ?thesis by (simp add: replaceFirst_def)
next
  case (Some fb)
  obtain front rest where "fb = (front, rest)" by (cases fb)
  with Some indexOf_split [of language "''-''" front rest] show ?thesis
    by (simp add: replaceFirst_def)
qed

lemma getPageContent_resolves: "\<exists>result. getPageContent cfg directory language = Inr result"
  by (cases "getPageContent_try cfg directory language") (simp_all add: getPageContent_def tryCatch_def)

lemma getPageContent_fallback:
  assumes "contentPagesDir cfg directory = Some (Directory contentFiles)"
    and "find (\<lambda>f. includesStr (fst f) language \<and> endsWith (fst f) ''.webpage.copy.html'') contentFiles = None"
  shows "getPageContent cfg directory language =
           (case findEndsWith ''.webpage.copy.html'' contentFiles of
              None \<Rightarrow> Inr None
            | Some fallbackFile \<Rightarrow> Inr (Some (loadPage contentFiles fallbackFile False)))"
  using assms
  by (simp add: getPageContent_def getPageContent_try_def tryCatch_def readdir_def replaceFirst_dash
      split: option.splits)

text \<open>
  C7.  \<open>getPageContent\<close> never rejects.  When the page has no \<open>content-pages\<close> directory
  the result is \<open>null\<close>.  When the directory has no \<open>.webpage.copy.html\<close> file whose name
  contains the requested language, the result is \<open>null\<close> if it has no \<open>.webpage.copy.html\<close>
  file at all, and otherwise the page made from the first such file of the listing, marked
  as not being a language file.
\<close>

theorem page_language_fallback:
  "(\<exists>result. getPageContent cfg directory language = Inr result)
   \<and> (contentPagesDir cfg directory = None \<longrightarrow> getPageContent cfg directory language = Inr None)
   \<and> (contentPagesDir cfg directory = Some (Directory contentFiles)
      \<and> find (\<lambda>f. includesStr (fst f) language \<and> endsWith (fst f) ''.webpage.copy.html'')
            contentFiles = None
      \<longrightarrow> (find (\<lambda>f. endsWith (fst f) ''.webpage.copy.html'') contentFiles = None
             \<longrightarrow> getPageContent cfg directory language = Inr None)
          \<and> (find (\<lambda>f. endsWith (fst f) ''.webpage.copy.html'') contentFiles = Some fallbackFile
             \<longrightarrow> (\<exists>page. getPageContent cfg directory language = Inr (Some page)
                        \<and> page_content page = snd fallbackFile
                        \<and> \<not> hasLanguageFile page)))"
proof (intro conjI impI)
  show "\<exists>result. getPageContent cfg directory language = Inr result"
    by (rule getPageContent_resolves)
next
  assume "contentPagesDir cfg directory = None"
  then show "getPageContent cfg directory language = Inr None"
    by (simp add: getPageContent_def getPageContent_try_def tryCatch_def)
next
  assume a: "contentPagesDir cfg directory = Some (Directory contentFiles)
      \<and> find (\<lambda>f. includesStr (fst f) language \<and> endsWith (fst f) ''.webpage.copy.html'')
            contentFiles = None"
    and b: "find (\<lambda>f. endsWith (fst f) ''.webpage.copy.html'') contentFiles = None"
  from a b show "getPageContent cfg directory language = Inr None"
    by (simp add: getPageContent_fallback findEndsWith_def)
next
  assume a: "contentPagesDir cfg directory = Some (Directory contentFiles)
      \<and> find (\<lambda>f. includesStr (fst f) language \<and> endsWith (fst f) ''.webpage.copy.html'')
            contentFiles = None"
    and b: "find (\<lambda>f. endsWith (fst f) ''.webpage.copy.html'') contentFiles = Some fallbackFile"
  from a b show "\<exists>page. getPageContent cfg directory language = Inr (Some page)
                        \<and> page_content page = snd fallbackFile
                        \<and> \<not> hasLanguageFile page"
    by (simp add: getPageContent_fallback findEndsWith_def loadPage_def readFile_def)
qed

lemma home_dir:
  "contentPagesDir pagesConfig ''home''
     = Some (Directory [(''Home.en-US.webpage.copy.html'', ''<h1>Home</h1>''),
                        (''Home.en-US.webpage.custom_css.css'', ''h1 { color: red }'')])"
  by (simp add: pagesConfig_def)

lemma home_no_hebrew:
  "find (\<lambda>f. includesStr (fst f) ''he-IL'' \<and> endsWith (fst f) ''.webpage.copy.html'')
     [(''Home.en-US.webpage.copy.html'', ''<h1>Home</h1>''),
      (''Home.en-US.webpage.custom_css.css'', ''h1 { color: red }'')] = None"
  by code_simp

lemma home_fallback:
  "find (\<lambda>f. endsWith (fst f) ''.webpage.copy.html'')
     [(''Home.en-US.webpage.copy.html'', ''<h1>Home</h1>''),
      (''Home.en-US.webpage.custom_css.css'', ''h1 { color: red }'')]
     = Some (''Home.en-US.webpage.copy.html'', ''<h1>Home</h1>'')"
  by code_simp

lemma empty_dir:
  "contentPagesDir pagesConfig ''empty'' = Some (Directory [(''Empty.webpage.yml'', ''x'')])"
  by (simp add: pagesConfig_def)

lemma empty_no_content:
  "find (\<lambda>f. includesStr (fst f) ''he-IL'' \<and> endsWith (fst f) ''.webpage.copy.html'')
     [(''Empty.webpage.yml'', ''x'')] = None
   \<and> find (\<lambda>f. endsWith (fst f) ''.webpage.copy.html'') [(''Empty.webpage.yml'', ''x'')] = None"
  by code_simp

lemma home_page:
  "getPageContent pagesConfig ''home'' ''he-IL''
     = Inr (Some \<lparr>page_content = ''<h1>Home</h1>'', customCss = ''h1 { color: red }'',
                 customJs = [], hasLanguageFile = False\<rparr>)"
  by code_simp

lemma broken_page: "getPageContent pagesConfig ''broken'' ''he-IL'' = Inr None"
  by code_simp

theorem page_language_fallback_witness:
  "contentPagesDir pagesConfig ''missing'' = None
   \<and> getPageContent_try pagesConfig ''broken'' ''he-IL'' = Inl FsError
   \<and> (\<exists>result. getPageContent pagesConfig ''broken'' ''he-IL'' = Inr result)
   \<and> getPageContent pagesConfig ''missing'' ''he-IL'' = Inr None
   \<and> getPageContent pagesConfig ''empty'' ''he-IL'' = Inr None
   \<and> (\<exists>page. getPageContent pagesConfig ''home'' ''he-IL'' = Inr (Some page)
         \<and> page_content page = ''<h1>Home</h1>'' \<and> \<not> hasLanguageFile page)"
proof -
  have missing: "contentPagesDir pagesConfig ''missing'' = None"
    by (simp add: pagesConfig_def emptyConfig_def)
  note m = page_language_fallback [where cfg = pagesConfig and directory = "''missing''"
      and language = "''he-IL''"]
  note e = page_language_fallback [where cfg = pagesConfig and directory = "''empty''"
      and language = "''he-IL''" and contentFiles = "[(''Empty.webpage.yml'', ''x'')]"]
  note h = page_language_fallback [where cfg = pagesConfig and directory = "''home''"
      and language = "''he-IL''"
      and contentFiles = "[(''Home.en-US.webpage.copy.html'', ''<h1>Home</h1>''),
                           (''Home.en-US.webpage.custom_css.css'', ''h1 { color: red }'')]"
      and fallbackFile = "(''Home.en-US.webpage.copy.html'', ''<h1>Home</h1>'')"]
  have r1: "getPageContent pagesConfig ''missing'' ''he-IL'' = Inr None"
    by (rule mp [OF conjunct1 [OF conjunct2 [OF m]] missing])
  have r2: "getPageContent pagesConfig ''empty'' ''he-IL'' = Inr None"
    using mp [OF conjunct2 [OF conjunct2 [OF e]]] empty_dir empty_no_content by simp
  have r3: "\<exists>page. getPageContent pagesConfig ''home'' ''he-IL'' = Inr (Some page)
         \<and> page_content page = ''<h1>Home</h1>'' \<and> \<not> hasLanguageFile page"
    using mp [OF conjunct2 [OF conjunct2 [OF h]]] home_dir home_no_hebrew home_fallback by simp
  have broken: "getPageContent_try pagesConfig ''broken'' ''he-IL'' = Inl FsError"
    by code_simp
  have r0: "\<exists>result. getPageContent pagesConfig ''broken'' ''he-IL'' = Inr result"
    by (rule conjunct1 [OF page_language_fallback])
  from missing broken r0 r1 r2 r3 show ?thesis by (intro conjI)
qed
subsection \<open>Mock rules: order and selection\<close>

lemma compareMocks_total: "compareMocks a b \<le> 0 \<or> compareMocks b a \<le> 0"
  by (auto simp: compareMocks_def)

lemma compareMocks_trans:
  "compareMocks a b \<le> 0 \<Longrightarrow> compareMocks b c \<le> 0 \<Longrightarrow> compareMocks a c \<le> 0"
  by (auto simp: compareMocks_def split: if_splits)

lemma compareMocks_priority: "compareMocks a b \<le> 0 \<Longrightarrow> priority b \<le> priority a"
  by (auto simp: compareMocks_def split: if_splits)

lemma set_insertMock: "set (insertMock x ys) = insert x (set ys)"
  by (induction ys) auto

lemma sortedMocks_insertMock: "sortedMocks ys \<Longrightarrow> sortedMocks (insertMock x ys)"
proof (induction ys)
  case Nil
  then show ?case by (simp add: sortedMocks_def)
next
  case (Cons y ys)
  show ?case
  proof (cases "compareMocks x y \<le> 0")
    case True
    with Cons.prems show ?thesis
      by (auto simp: sortedMocks_def intro: compareMocks_trans)
  next
    case False
    then have "compareMocks y x \<le> 0" using compareMocks_total by blast
    with False Cons show ?thesis
      by (auto simp: sortedMocks_def set_insertMock)
  qed
qed

lemma sortedMocks_sortMocks: "sortedMocks (sortMocks mocks)"
  by (induction mocks) (simp_all add: sortMocks_def sortedMocks_def sortedMocks_insertMock [unfolded sortedMocks_def])

lemma set_sortMocks: "set (sortMocks mocks) = set mocks"
  by (induction mocks) (simp_all add: sortMocks_def set_insertMock)

lemma sortedMocks_saveMock: "sortedMocks (saveMock mocks m)"
  by (simp add: saveMock_def sortedMocks_sortMocks)

lemma set_saveMock: "set (saveMock mocks m) = insert m (set mocks)"
  by (simp add: saveMock_def set_sortMocks)

lemma sortedMocks_loadMocks: "sortedMocks mocks \<Longrightarrow> sortedMocks (loadMocks mocks)"
  by (simp add: sortedMocks_def loadMocks_def sorted_wrt_filter)

lemma find_first_of_sorted:
  "sortedMocks mocks \<Longrightarrow> find P mocks = Some m \<Longrightarrow> m' \<in> set mocks \<Longrightarrow> P m' \<Longrightarrow>
   priority m' \<le> priority m"
proof (induction mocks)
  case Nil
  then show ?case by simp
next
  case (Cons x xs)
  show ?case
  proof (cases "P x")
    case True
    with Cons.prems have "m = x" by simp
    with Cons.prems show ?thesis
      by (auto simp: sortedMocks_def dest: compareMocks_priority)
  next
    case False
    with Cons show ?thesis by (auto simp: sortedMocks_def)
  qed
qed

text \<open>
  On a list in the order of \<open>saveMock\<close>, the middleware selects a rule of the highest
  priority among the enabled rules that match, and rules registered through \<open>saveMock\<close>, in
  any order, are stored in that order.
\<close>

lemma findMatchingMock_highest:
  assumes "sortedMocks stored"
    and "m' \<in> set stored" and "enabled m'" and "matchesRequest regexTest m' req"
  shows "\<exists>m. findMatchingMock regexTest (loadMocks stored) req = Some m
           \<and> matchesRequest regexTest m req \<and> priority m' \<le> priority m"
proof -
  have in_loaded: "m' \<in> set (loadMocks stored)"
    using assms by (simp add: loadMocks_def)
  then have "find (\<lambda>m. matchesRequest regexTest m req) (loadMocks stored) \<noteq> None"
    using assms(4) by (auto simp: find_None_iff)
  then obtain m where m: "find (\<lambda>m. matchesRequest regexTest m req) (loadMocks stored) = Some m"
    by auto
  then have "matchesRequest regexTest m req"
    by (auto simp: find_Some_iff)
  moreover have "priority m' \<le> priority m"
    using find_first_of_sorted [OF sortedMocks_loadMocks [OF assms(1)] m in_loaded assms(4)] .
  ultimately show ?thesis using m by (simp add: findMatchingMock_def)
qed

lemma registration_order_irrelevant:
  "sortedMocks (foldl saveMock [] registered) \<and> set (foldl saveMock [] registered) = set registered"
proof (induction registered rule: rev_induct)
  case Nil
  then show ?case by (simp add: sortedMocks_def)
next
  case (snoc m ms)
  then show ?case by (simp add: sortedMocks_saveMock set_saveMock)
qed

text \<open>
  C8.  \<open>saveMock\<close> and \<open>importMocks\<close> sort the list before writing it, and the middleware
  relies on that (\<open>// Sort mocks by priority (already sorted in config)\<close>).  \<open>editMock\<close>
  changes a priority and writes the list back unsorted.  After rule \<open>A\<close> (priority 5) and
  rule \<open>B\<close> (priority 1) are saved and the priority of \<open>B\<close> is edited to 10, the stored
  list is not sorted, both rules match the request, and the middleware selects \<open>A\<close>, the
  rule of the lower priority.
\<close>

theorem edited_priority_not_resorted:
  "saveMock (saveMock [] ruleA) ruleB = [ruleA, ruleB]
   \<and> editMockPriority [ruleA, ruleB] 1 10 = [ruleA, ruleB\<lparr>priority := 10\<rparr>]
   \<and> \<not> sortedMocks (editMockPriority (saveMock (saveMock [] ruleA) ruleB) 1 10)
   \<and> matchesRequest regexTest ruleA incidentsRequest
   \<and> matchesRequest regexTest (ruleB\<lparr>priority := 10\<rparr>) incidentsRequest
   \<and> findMatchingMock regexTest
        (loadMocks (editMockPriority (saveMock (saveMock [] ruleA) ruleB) 1 10)) incidentsRequest
       = Some ruleA
   \<and> priority ruleA < priority (ruleB\<lparr>priority := 10\<rparr>)"
proof -
  have saved: "saveMock (saveMock [] ruleA) ruleB = [ruleA, ruleB]"
    by (simp add: saveMock_def sortMocks_def compareMocks_def ruleA_def ruleB_def)
  have edited: "editMockPriority [ruleA, ruleB] 1 10 = [ruleA, ruleB\<lparr>priority := 10\<rparr>]"
    by (simp add: editMockPriority_def)
  have unsorted: "\<not> sortedMocks [ruleA, ruleB\<lparr>priority := 10\<rparr>]"
    by (simp add: sortedMocks_def compareMocks_def ruleA_def ruleB_def)
  have upper: "toUpperCase ''GET'' = ''GET''" by code_simp
  have matchA: "matchesRequest regexTest ruleA incidentsRequest"
    by (simp add: matchesRequest_def queryMatches_def ruleA_def incidentsRequest_def upper)
  have matchB: "matchesRequest regexTest (ruleB\<lparr>priority := 10\<rparr>) incidentsRequest"
    by (simp add: matchesRequest_def queryMatches_def ruleB_def incidentsRequest_def upper)
  have loaded: "loadMocks [ruleA, ruleB\<lparr>priority := 10\<rparr>] = [ruleA, ruleB\<lparr>priority := 10\<rparr>]"
    by (simp add: loadMocks_def ruleA_def ruleB_def)
  have found: "findMatchingMock regexTest [ruleA, ruleB\<lparr>priority := 10\<rparr>] incidentsRequest = Some ruleA"
    using matchA by (simp add: findMatchingMock_def)
  have less: "priority ruleA < priority (ruleB\<lparr>priority := 10\<rparr>)"
    by (simp add: ruleA_def)
  show ?thesis
    using saved edited unsorted matchA matchB loaded found less by simp
qed
subsection \<open>Mock rules: query constraints\<close>









end
